theory Spec2Isabelle
  imports Complex_Main
begin

section \<open>Python regular expressions, as the target description uses them\<close>

text \<open>
  The AArch64 front end (\<^verbatim>\<open>targets/aarch64/aarch64_neon.py\<close>) recognises loops and
  instructions with Python regular expressions, matched with \<^verbatim>\<open>re.match\<close>: the match is
  anchored at the start of the text, need not reach its end, and is the first one in the
  backtracking order (quantifiers greedy, alternatives from left to right). Every repetition
  in the source's expressions is over one character class, so the model's repetition is over
  a class.

  A text is a list of characters, and a character of HOL is a code point below 256: the
  texts of the model are Python's texts over ASCII and Latin-1. The expressions are compiled
  from \<^verbatim>\<open>str\<close> patterns with no flag, so \<^verbatim>\<open>\w\<close> and \<^verbatim>\<open>\s\<close> are the Unicode classes:
  \<^verbatim>\<open>\w\<close> is \<^verbatim>\<open>str.isalnum()\<close> or the underscore, \<^verbatim>\<open>\s\<close> is \<^verbatim>\<open>str.isspace()\<close>. Below 256 these
  are the classes of \<open>is_word\<close> and \<open>is_space\<close>.
\<close>

datatype catom =
    Ch char        \<comment> \<open>a literal character\<close>
  | Space          \<comment> \<open>\<^verbatim>\<open>\s\<close>\<close>
  | Word           \<comment> \<open>\<^verbatim>\<open>\w\<close>\<close>
  | Digit          \<comment> \<open>\<^verbatim>\<open>[0-9]\<close>\<close>
  | AnyCh          \<comment> \<open>\<^verbatim>\<open>.\<close>: any character but a newline\<close>
  | NotCh char     \<comment> \<open>\<^verbatim>\<open>[^c]\<close>\<close>

definition is_digit :: "char \<Rightarrow> bool" where
  "is_digit x = (let n = (of_char x :: nat) in 48 \<le> n \<and> n \<le> 57)"

text \<open>
  The word characters beyond ASCII are the letters of Latin-1 (with the ordinal indicators
  and the micro sign), the superscript digits and the three vulgar fractions; the white space
  beyond ASCII is the next-line character 0x85 and the no-break space 0xA0.
\<close>

definition is_word :: "char \<Rightarrow> bool" where
  "is_word x = (let n = (of_char x :: nat) in
     (48 \<le> n \<and> n \<le> 57) \<or> (65 \<le> n \<and> n \<le> 90) \<or> (97 \<le> n \<and> n \<le> 122) \<or> n = 95 \<or>
     (128 \<le> n \<and>
       (n = 170 \<or> n = 178 \<or> n = 179 \<or> n = 181 \<or> n = 185 \<or> n = 186 \<or>
        (188 \<le> n \<and> n \<le> 190) \<or> (192 \<le> n \<and> n \<le> 214) \<or> (216 \<le> n \<and> n \<le> 246) \<or>
        248 \<le> n)))"

definition is_space :: "char \<Rightarrow> bool" where
  "is_space x = (let n = (of_char x :: nat) in
     (9 \<le> n \<and> n \<le> 13) \<or> (28 \<le> n \<and> n \<le> 32) \<or> n = 133 \<or> n = 160)"

fun in_atom :: "catom \<Rightarrow> char \<Rightarrow> bool" where
  "in_atom (Ch c) x = (x = c)"
| "in_atom Space x = is_space x"
| "in_atom Word x = is_word x"
| "in_atom Digit x = is_digit x"
| "in_atom AnyCh x = (of_char x \<noteq> (10::nat))"
| "in_atom (NotCh c) x = (x \<noteq> c)"

definition in_cls :: "catom list \<Rightarrow> char \<Rightarrow> bool" where
  "in_cls cs x = list_ex (\<lambda>a. in_atom a x) cs"

datatype rx =
    Eps
  | One "catom list"       \<comment> \<open>one character of a class\<close>
  | Str string             \<comment> \<open>a literal text\<close>
  | Seq rx rx
  | Alt rx rx              \<comment> \<open>\<^verbatim>\<open>a|b\<close>, the left alternative first\<close>
  | Opt rx                 \<comment> \<open>\<^verbatim>\<open>a?\<close>, greedy\<close>
  | Star "catom list"      \<comment> \<open>\<^verbatim>\<open>c*\<close>, greedy\<close>
  | Plus "catom list"      \<comment> \<open>\<^verbatim>\<open>c+\<close>, greedy\<close>
  | Grp string rx          \<comment> \<open>a group, named or numbered\<close>
  | Eos                    \<comment> \<open>the end of the text\<close>

type_synonym groups = "(string \<times> string) list"

text \<open>
  A greedy repetition that can take at most \<open>n\<close> characters tries \<open>n\<close>, then \<open>n - 1\<close>, down
  to \<open>lo\<close>, and takes the first length with which the rest of the expression matches.
\<close>

fun backtrack :: "nat \<Rightarrow> nat \<Rightarrow> string \<Rightarrow> (string \<Rightarrow> groups option) \<Rightarrow> groups option" where
  "backtrack lo 0 s k = (if lo = 0 then k s else None)"
| "backtrack lo (Suc n) s k =
     (if Suc n < lo then None
      else (case k (drop (Suc n) s) of Some r \<Rightarrow> Some r | None \<Rightarrow> backtrack lo n s k))"

fun rmatch :: "rx \<Rightarrow> string \<Rightarrow> groups \<Rightarrow> (string \<Rightarrow> groups \<Rightarrow> groups option) \<Rightarrow> groups option" where
  "rmatch Eps s g k = k s g"
| "rmatch (One cs) s g k =
     (case s of [] \<Rightarrow> None | x # xs \<Rightarrow> if in_cls cs x then k xs g else None)"
| "rmatch (Str t) s g k =
     (if take (length t) s = t then k (drop (length t) s) g else None)"
| "rmatch (Seq a b) s g k = rmatch a s g (\<lambda>s' g'. rmatch b s' g' k)"
| "rmatch (Alt a b) s g k =
     (case rmatch a s g k of Some r \<Rightarrow> Some r | None \<Rightarrow> rmatch b s g k)"
| "rmatch (Opt a) s g k =
     (case rmatch a s g k of Some r \<Rightarrow> Some r | None \<Rightarrow> k s g)"
| "rmatch (Star cs) s g k =
     backtrack 0 (length (takeWhile (in_cls cs) s)) s (\<lambda>s'. k s' g)"
| "rmatch (Plus cs) s g k =
     backtrack 1 (length (takeWhile (in_cls cs) s)) s (\<lambda>s'. k s' g)"
| "rmatch (Grp n a) s g k =
     rmatch a s g (\<lambda>s' g'. k s' ((n, take (length s - length s') s) # g'))"
| "rmatch Eos s g k = (if s = [] then k s g else None)"

definition re_match :: "rx \<Rightarrow> string \<Rightarrow> groups option" where
  "re_match r s = rmatch r s [] (\<lambda>s' g. Some g)"

text \<open>\<^verbatim>\<open>p.group(name)\<close>: the text of the group, \<open>None\<close> when it took no part in the match.\<close>

definition group :: "groups \<Rightarrow> string \<Rightarrow> string option" where
  "group g n = map_of g n"

text \<open>
  The names of the groups of an expression, and a continuation that leaves the text of the
  group \<open>n\<close> as it finds it.
\<close>

fun group_names :: "rx \<Rightarrow> string set" where
  "group_names (Seq a b) = group_names a \<union> group_names b"
| "group_names (Alt a b) = group_names a \<union> group_names b"
| "group_names (Opt a) = group_names a"
| "group_names (Grp n a) = insert n (group_names a)"
| "group_names r = {}"

definition keeps :: "string \<Rightarrow> (string \<Rightarrow> groups \<Rightarrow> groups option) \<Rightarrow> bool" where
  "keeps n k = (\<forall>s g r. k s g = Some r \<longrightarrow> map_of r n = map_of g n)"

fun seqs :: "rx list \<Rightarrow> rx" where
  "seqs [] = Eps"
| "seqs [r] = r"
| "seqs (r # rs) = Seq r (seqs rs)"


section \<open>Errors\<close>

text \<open>
  The exceptions the modelled code raises. \<open>Exception\<close> is Python's plain
  \<^verbatim>\<open>Exception(message)\<close>; \<open>ParsingException\<close> is
  \<^verbatim>\<open>Instruction.ParsingException\<close>; \<open>ReError\<close> is \<^verbatim>\<open>re.error\<close>, which
  \<^verbatim>\<open>re.compile\<close> raises for a text that is no expression.
\<close>

datatype error =
    Exception string
  | ParsingException string
  | NameError string
  | IndexError
  | KeyError string
  | AttributeError string
  | TypeError
  | AssertionError
  | BinarySearchLimitException
  | ReError

section \<open>\<^verbatim>\<open>Loop.extract\<close>\<close>

text \<open>
  \<^verbatim>\<open>str.splitlines()\<close>: a line ends at a line feed, a carriage return (with the line
  feed after it, if any), a vertical tab, a form feed, one of the separators 0x1C to 0x1E or
  the next-line character 0x85 (beyond 255 also at U+2028 and U+2029); the line ends are
  dropped and no empty line follows the last line end.
\<close>

definition is_linebreak :: "char \<Rightarrow> bool" where
  "is_linebreak x = (let n = (of_char x :: nat) in
     (10 \<le> n \<and> n \<le> 13) \<or> (28 \<le> n \<and> n \<le> 30) \<or> n = 133)"

fun splitlines_from :: "string \<Rightarrow> string \<Rightarrow> string list" where
  "splitlines_from cur [] = (if cur = [] then [] else [rev cur])"
| "splitlines_from cur [x] = (if is_linebreak x then [rev cur] else [rev (x # cur)])"
| "splitlines_from cur (x # y # xs) =
     (if x = CHR 0x0D \<and> y = CHR 0x0A then rev cur # splitlines_from [] xs
      else if is_linebreak x then rev cur # splitlines_from [] (y # xs)
      else splitlines_from (x # cur) (y # xs))"

definition splitlines :: "string \<Rightarrow> string list" where
  "splitlines s = splitlines_from [] s"

text \<open>
  The three expressions of \<^verbatim>\<open>Loop.extract\<close>:
  \<^verbatim>\<open>^\s*(?P<label>\w+)\s*:(?P<remainder>.*)$\<close>,
  \<^verbatim>\<open>^\s*subs\s+(?P<reg0>\w+),\s+(?P<reg1>\w+),\s+(?P<imm>.+)\<close> and
  \<^verbatim>\<open>^\s*(cbnz|bnz)\s+\w*,*\s*{lbl}\<close>. They are matched against the lines that
  \<^verbatim>\<open>splitlines\<close> gives, and against the text after the colon of such a line: no line feed
  is in them, so \<^verbatim>\<open>$\<close> is the end of the text. The last expression has the label pasted in
  as expression text. A label made of word characters is an expression that matches the label
  itself. The expression is used only once a line has been found whose \<^verbatim>\<open>label\<close> group is
  the label, and that group is a run of word characters: so the model matches the label as
  it stands.
\<close>

definition loop_lbl_regexp :: rx where
  "loop_lbl_regexp = seqs [Star [Space], Grp ''label'' (Plus [Word]), Star [Space], Str '':'',
     Grp ''remainder'' (Star [AnyCh]), Eos]"

definition loop_end_regexp0 :: rx where
  "loop_end_regexp0 = seqs [Star [Space], Str ''subs'', Plus [Space],
     Grp ''reg0'' (Plus [Word]), Str '','', Plus [Space],
     Grp ''reg1'' (Plus [Word]), Str '','', Plus [Space],
     Grp ''imm'' (Plus [AnyCh])]"

definition loop_end_regexp1 :: "string \<Rightarrow> rx" where
  "loop_end_regexp1 lbl = seqs [Star [Space], Grp ''1'' (Alt (Str ''cbnz'') (Str ''bnz'')),
     Plus [Space], Star [Word], Star [Ch CHR '',''], Star [Space], Str lbl]"

definition is_label :: "string \<Rightarrow> string \<Rightarrow> bool" where
  "is_label lbl l = (case re_match loop_lbl_regexp l of
       None \<Rightarrow> False
     | Some p \<Rightarrow> group p ''label'' = Some lbl)"

definition remainder :: "string \<Rightarrow> string" where
  "remainder l = (case re_match loop_lbl_regexp l of
       None \<Rightarrow> []
     | Some p \<Rightarrow> (case group p ''remainder'' of None \<Rightarrow> [] | Some r \<Rightarrow> r))"

definition is_subs :: "string \<Rightarrow> bool" where
  "is_subs l = (re_match loop_end_regexp0 l \<noteq> None)"

definition is_branch :: "string \<Rightarrow> string \<Rightarrow> bool" where
  "is_branch lbl l = (re_match (loop_end_regexp1 lbl) l \<noteq> None)"

definition subs_groups :: "string \<Rightarrow> string \<times> string \<times> string" where
  "subs_groups l = (case re_match loop_end_regexp0 l of
       None \<Rightarrow> ([], [], [])
     | Some p \<Rightarrow> (case (group p ''reg0'', group p ''reg1'', group p ''imm'') of
          (Some a, Some b, Some c) \<Rightarrow> (a, b, c) | _ \<Rightarrow> ([], [], [])))"

definition loop_not_found :: "string \<Rightarrow> error" where
  "loop_not_found lbl = Exception (''Couldn'' @ [CHR 0x27] @ ''t identify loop '' @ lbl)"

type_synonym loop_parts = "string list \<times> string list \<times> string list \<times> string \<times> (string \<times> string \<times> string)"

text \<open>
  The \<^verbatim>\<open>while True\<close> loop of \<^verbatim>\<open>extract\<close>, on the lines still to read. \<open>state\<close> is
  the source's: 0 before the loop, 1 in its body, 2 after the \<^verbatim>\<open>subs\<close>, 3 after the
  branch. When the label is found, \<^verbatim>\<open>keep\<close> makes the next round read the text after the
  colon in place of a new line: here that text is put back in front of the lines.
\<close>

function extract_loop ::
  "string \<Rightarrow> nat \<Rightarrow> string list \<Rightarrow> string list \<Rightarrow> string list \<Rightarrow> string list
     \<Rightarrow> (string \<times> string \<times> string) option \<Rightarrow> error + loop_parts" where
  "extract_loop lbl state [] pre body post regs =
     (if state < 3 then Inl (loop_not_found lbl)
      else (case regs of
              None \<Rightarrow> Inl (NameError ''reg0'')
            | Some r \<Rightarrow> Inr (pre, body, post, lbl, r)))"
| "extract_loop lbl state (l # ls) pre body post regs =
     (if state = 0 then
        (if is_label lbl l then extract_loop lbl 1 (remainder l # ls) pre body post regs
         else extract_loop lbl 0 ls (pre @ [l]) body post regs)
      else if state = 1 then
        (if is_subs l then extract_loop lbl 2 ls pre body post (Some (subs_groups l))
         else extract_loop lbl 1 ls pre (body @ [l]) post regs)
      else if state = 2 then
        (if is_branch lbl l then extract_loop lbl 3 ls pre body post regs
         else extract_loop lbl 2 ls pre (body @ [l]) post regs)
      else extract_loop lbl state ls pre body (post @ [l]) regs)"
  by pat_completeness auto
termination
  by (relation "measure (\<lambda>(lbl, state, ls, pre, body, post, regs).
        2 * length ls + (if state = 0 then 1 else 0))") auto

text \<open>
  \<^verbatim>\<open>Loop.extract(source, lbl)\<close>. The expressions are compiled before a line is read, and
  \<^verbatim>\<open>re.compile\<close> raises \<^verbatim>\<open>re.error\<close> when the third text, with the label in it, is no
  expression. With a label of word characters it always is one; for any other label
  \<open>compiles\<close> says whether Python's \<^verbatim>\<open>re\<close> accepts it.
\<close>

definition label_compiles :: "(string \<Rightarrow> bool) \<Rightarrow> string \<Rightarrow> bool" where
  "label_compiles compiles lbl = (list_all is_word lbl \<or> compiles lbl)"

definition Loop_extract :: "(string \<Rightarrow> bool) \<Rightarrow> string \<Rightarrow> string \<Rightarrow> error + loop_parts" where
  "Loop_extract compiles source lbl =
     (if \<not> label_compiles compiles lbl then Inl ReError
      else extract_loop lbl 0 (splitlines source) [] [] [] None)"

section \<open>Instructions of the AArch64 model\<close>

datatype RegisterType = GPR | Neon | StackNeon | StackGPR | StackAny | Flags

text \<open>
  \<^verbatim>\<open>RegisterType.list_registers(reg_type)\<close> with its default arguments: the normal
  registers of a class.
\<close>

fun str_nat :: "nat \<Rightarrow> string" where
  "str_nat n = (if n < 10 then [char_of (48 + n)] else str_nat (n div 10) @ [char_of (48 + n mod 10)])"

definition regs_named :: "string \<Rightarrow> nat \<Rightarrow> nat \<Rightarrow> string list" where
  "regs_named p lo hi = map (\<lambda>i. p @ str_nat i) [lo..<hi]"

definition list_registers :: "RegisterType \<Rightarrow> string list" where
  "list_registers ty = (case ty of
      GPR \<Rightarrow> regs_named ''x'' 0 31 @ [''sp'']
    | StackGPR \<Rightarrow> regs_named ''STACK'' 0 8
    | StackNeon \<Rightarrow> regs_named ''QSTACK'' 0 8
    | StackAny \<Rightarrow> [''STACK_MASK1'', ''STACK_MASK2'', ''STACK_A_0'', ''STACK_A_8'', ''STACK_A_16'',
        ''STACK_A_24'', ''STACK_A_32'', ''STACK_B_0'', ''STACK_B_8'', ''STACK_B_16'', ''STACK_B_24'',
        ''STACK_B_32'', ''STACK_CTR'', ''STACK_LASTBIT'', ''STACK_SCALAR'', ''STACK_X_0'',
        ''STACK_X_8'', ''STACK_X_16'', ''STACK_X_24'', ''STACK_X_32'']
    | Neon \<Rightarrow> regs_named ''v'' 0 32
    | Flags \<Rightarrow> [''flags''])"

text \<open>
  The attribute \<^verbatim>\<open>datatype\<close> of an instruction is one text or a list of texts.
\<close>

datatype dtval = DtStr string | DtList "string list"

text \<open>
  An instruction object. \<open>cls\<close> is the name of its class (what \<^verbatim>\<open>isinstance\<close> asks for).
  An attribute that the class does not set is \<open>None\<close>; so is one that is set to Python's
  \<^verbatim>\<open>None\<close>.
\<close>

record inst =
  cls :: string
  mnemonic :: string
  arg_types_in :: "RegisterType list"
  arg_types_out :: "RegisterType list"
  arg_types_in_out :: "RegisterType list"
  num_in :: nat
  num_out :: nat
  num_in_out :: nat
  args_in :: "string list"
  args_out :: "string list"
  args_in_out :: "string list"
  args_in_restrictions :: "string list option list"
  args_out_restrictions :: "string list option list"
  args_in_out_restrictions :: "string list option list"
  args_in_combinations :: "(nat list \<times> string list list) list option"
  args_out_combinations :: "(nat list \<times> string list list) list option"
  args_in_out_combinations :: "(nat list \<times> string list list) list option"
  pattern_inputs :: "(string \<times> RegisterType) list"
  pattern_outputs :: "(string \<times> RegisterType) list"
  pattern_in_outs :: "(string \<times> RegisterType) list"
  data_type :: "dtval option"
  data_types :: "string list option"
  index :: "nat option"
  immediate :: "string option"
  addr :: "string option"
  increment :: "string option"
  pre_index :: "string option"
  post_index :: "string option"
  writeback :: "bool option"
  lane :: "string option"
  shift :: "string option"
  detected_vins_pair :: "bool option"
  detected_stack_vld2_lane_pair :: "bool option"

text \<open>\<^verbatim>\<open>Instruction.__init__\<close>.\<close>

definition Instruction_init ::
  "string \<Rightarrow> string \<Rightarrow> RegisterType list \<Rightarrow> RegisterType list \<Rightarrow> RegisterType list \<Rightarrow> inst" where
  "Instruction_init c m tys_in tys_in_out tys_out =
     \<lparr> cls = c, mnemonic = m,
       arg_types_in = tys_in, arg_types_out = tys_out, arg_types_in_out = tys_in_out,
       num_in = length tys_in, num_out = length tys_out, num_in_out = length tys_in_out,
       args_in = [], args_out = [], args_in_out = [],
       args_in_restrictions = replicate (length tys_in) None,
       args_out_restrictions = replicate (length tys_out) None,
       args_in_out_restrictions = replicate (length tys_in_out) None,
       args_in_combinations = None, args_out_combinations = None,
       args_in_out_combinations = None,
       pattern_inputs = [], pattern_outputs = [], pattern_in_outs = [],
       data_type = None, data_types = None, index = None, immediate = None,
       addr = None, increment = None, pre_index = None, post_index = None, writeback = None,
       lane = None, shift = None, detected_vins_pair = None,
       detected_stack_vld2_lane_pair = None \<rparr>"

subsection \<open>Texts\<close>

text \<open>
  \<^verbatim>\<open>re.sub("//.*$", "", src)\<close> on one line (a text with no line end in it): the line up
  to its first \<^verbatim>\<open>//\<close>.
\<close>

fun strip_comment :: "string \<Rightarrow> string" where
  "strip_comment [] = []"
| "strip_comment [x] = [x]"
| "strip_comment (x # y # xs) =
     (if x = CHR ''/'' \<and> y = CHR ''/'' then [] else x # strip_comment (y # xs))"

text \<open>\<^verbatim>\<open>str.lower()\<close>, on code points below 256.\<close>

definition lower_char :: "char \<Rightarrow> char" where
  "lower_char x = (let n = (of_char x :: nat) in
     if (65 \<le> n \<and> n \<le> 90) \<or> (192 \<le> n \<and> n \<le> 222 \<and> n \<noteq> 215) then char_of (n + 32) else x)"

definition lower :: "string \<Rightarrow> string" where
  "lower s = map lower_char s"

text \<open>\<^verbatim>\<open>int(s)\<close> for a text of decimal digits.\<close>

definition int_of_digits :: "string \<Rightarrow> nat" where
  "int_of_digits s = foldl (\<lambda>acc x. 10 * acc + (of_char x - 48)) 0 s"

subsection \<open>\<^verbatim>\<open>Instruction.parse\<close>, the parser a class inherits\<close>

text \<open>
  The expression is \<^verbatim>\<open>^\s*{mnemonic}\<close>, then \<^verbatim>\<open>\s+\<close> when the class has operands, then
  one \<^verbatim>\<open>\s*(\w+)\s*\<close> for each operand, with commas between them. No class of the file
  that inherits this parser has \<^verbatim>\<open><dt>\<close> in its mnemonic, and every mnemonic is made of
  word characters, so the mnemonic is matched as it stands. The groups are numbered.
\<close>

definition operand_rx :: "nat \<Rightarrow> rx" where
  "operand_rx i = seqs [Star [Space], Grp (str_nat i) (Plus [Word]), Star [Space]]"

fun join_rx :: "rx \<Rightarrow> rx list \<Rightarrow> rx list" where
  "join_rx sep [] = []"
| "join_rx sep [r] = [r]"
| "join_rx sep (r # rs) = r # sep # join_rx sep rs"

definition basic_template :: "string \<Rightarrow> nat \<Rightarrow> rx list" where
  "basic_template m expected_args =
     [Star [Space], Str m] @ (if expected_args > 0 then [Plus [Space]] else [])
     @ join_rx (Str '','') (map operand_rx [1..<Suc expected_args])"

text \<open>\<^verbatim>\<open>list(p.groups())\<close> for \<open>n\<close> numbered groups, each of which took part in the match.\<close>

definition numbered_groups :: "groups \<Rightarrow> nat \<Rightarrow> string list" where
  "numbered_groups p n = map (\<lambda>i. case group p (str_nat i) of None \<Rightarrow> [] | Some t \<Rightarrow> t) [1..<Suc n]"

definition assign_operands :: "inst \<Rightarrow> string list \<Rightarrow> nat \<Rightarrow> inst" where
  "assign_operands i operands n =
     (let i1 = i\<lparr>args_in := [], args_out := [], args_in_out := []\<rparr>;
          i2 = (if num_out i > 0 then i1\<lparr>args_out := take (num_out i) operands\<rparr>
                else if num_in_out i > 0 then i1\<lparr>args_in_out := take (num_in_out i) operands\<rparr>
                else i1);
          idx_args_in = (if num_out i > 0 then num_out i
                         else if num_in_out i > 0 then num_in_out i else 0)
      in i2\<lparr>args_in := drop idx_args_in (take n operands)\<rparr>)"

definition Instruction_parse :: "inst \<Rightarrow> string \<Rightarrow> error + inst" where
  "Instruction_parse self src0 =
     (let src = strip_comment src0;
          expected_args = num_in self + num_out self + num_in_out self
      in case re_match (seqs (basic_template (mnemonic self) expected_args)) src of
           None \<Rightarrow> Inl (ParsingException (''Doesn'' @ [CHR 0x27] @ ''t match basic instruction template''))
         | Some p \<Rightarrow>
            (let operands = numbered_groups p expected_args;
                 i = (assign_operands self operands expected_args)\<lparr>data_type := Some (DtStr [])\<rparr>
             in if length (args_in i) \<noteq> num_in self then Inl (Exception ''Something wrong parsing'')
                else Inr i))"

subsection \<open>Classes with a parser of their own\<close>

text \<open>The text of a group that takes part in every match of its expression.\<close>

definition grp_str :: "groups \<Rightarrow> string \<Rightarrow> string" where
  "grp_str p n = (case group p n of None \<Rightarrow> [] | Some t \<Rightarrow> t)"

definition does_not_match :: error where
  "does_not_match = ParsingException ''Does not match pattern''"

text \<open>
  The wrappers \<^verbatim>\<open>ldr_vo\<close>, \<^verbatim>\<open>ldr_vi\<close>, \<^verbatim>\<open>str_vo\<close>, \<^verbatim>\<open>str_vi\<close>: the inherited
  template followed by \<^verbatim>\<open>,\s*(?P<immediate>[\(\)\+\-\*\/0-9 ]+)\<close>. The immediate is the last
  group; \<open>pre\<close> says whether it is the pre-index (\<^verbatim>\<open>_vo\<close>) or the increment
  (\<^verbatim>\<open>_vi\<close>), \<open>addr_pos\<close> which input is the address.
\<close>

definition wrapper_parse :: "inst \<Rightarrow> bool \<Rightarrow> nat \<Rightarrow> string \<Rightarrow> error + inst" where
  "wrapper_parse self pre addr_pos src0 =
     (let src = strip_comment src0;
          expected_args = num_in self + num_out self + num_in_out self
      in case re_match (seqs (basic_template (mnemonic self) expected_args @
                 [Str '','', Star [Space],
                  Grp ''immediate'' (Plus [Ch CHR ''('', Ch CHR '')'', Ch CHR ''+'', Ch CHR ''-'',
                     Ch CHR ''*'', Ch CHR ''/'', Digit, Ch CHR '' ''])])) src of
           None \<Rightarrow> Inl (ParsingException (''Doesn'' @ [CHR 0x27] @ ''t match basic instruction template''))
         | Some p \<Rightarrow>
            (let operands = numbered_groups p expected_args @ [grp_str p ''immediate''];
                 i0 = assign_operands self operands expected_args;
                 i1 = i0\<lparr>data_type := Some (DtStr []),
                         pre_index := (if pre then Some (last operands) else None),
                         increment := (if pre then None else Some (last operands))\<rparr>
             in if addr_pos < length (args_in i1)
                then (let i2 = i1\<lparr>addr := Some (args_in i1 ! addr_pos)\<rparr>
                      in if length (args_in i2) \<noteq> num_in self
                         then Inl (Exception ''Something wrong parsing'') else Inr i2)
                else Inl IndexError))"

text \<open>
  \<^verbatim>\<open>x_str\<close>, \<^verbatim>\<open>x_ldr\<close>, \<^verbatim>\<open>vldr\<close>: the expression is
  \<^verbatim>\<open>\s*ldr\s+(?P<dest>\w+),\s*\[\s*(?P<addr>\w+)\s*(?:,\s*#(?P<addroffset>[^\]]*))?\](?P<writeback>!?)\s*(?:,\s*#(?P<postinc>.*))?\<close>
  (with \<^verbatim>\<open>str\<close> for the store). \<^verbatim>\<open>_simplify\<close> hands the three offsets that are not
  \<^verbatim>\<open>None\<close> to \<^verbatim>\<open>sympy.simplify\<close>, which is no code of this repository: it is the
  parameter \<open>simplify\<close>, and may raise.
\<close>

definition ldr_str_regexp :: "string \<Rightarrow> rx" where
  "ldr_str_regexp m = seqs [Star [Space], Str m, Plus [Space],
     Grp ''dest'' (Plus [Word]), Str '','', Star [Space],
     Str ''['', Star [Space], Grp ''addr'' (Plus [Word]), Star [Space],
     Opt (seqs [Str '','', Star [Space], Str ''#'', Grp ''addroffset'' (Star [NotCh CHR '']''])]),
     Str '']'', Grp ''writeback'' (Opt (Str ''!'')), Star [Space],
     Opt (seqs [Str '','', Star [Space], Str ''#'', Grp ''postinc'' (Star [AnyCh])])]"

definition simplify_opt :: "(string \<Rightarrow> error + string) \<Rightarrow> string option \<Rightarrow> error + string option" where
  "simplify_opt simplify v = (case v of
       None \<Rightarrow> Inr None
     | Some t \<Rightarrow> (case simplify t of Inl e \<Rightarrow> Inl e | Inr t' \<Rightarrow> Inr (Some t')))"

definition simplify_offsets :: "(string \<Rightarrow> error + string) \<Rightarrow> inst \<Rightarrow> error + inst" where
  "simplify_offsets simplify i =
     (case simplify_opt simplify (increment i) of Inl e \<Rightarrow> Inl e | Inr inc \<Rightarrow>
      case simplify_opt simplify (post_index i) of Inl e \<Rightarrow> Inl e | Inr post \<Rightarrow>
      case simplify_opt simplify (pre_index i) of Inl e \<Rightarrow> Inl e | Inr pre \<Rightarrow>
        Inr (i\<lparr>increment := inc, post_index := post, pre_index := pre\<rparr>))"

text \<open>
  The part the three parsers share, up to \<^verbatim>\<open>self._simplify()\<close>; it returns the
  \<^verbatim>\<open>dest\<close> group and \<^verbatim>\<open>self.addr\<close> with the instruction.
\<close>

definition ldr_str_addressing ::
  "(string \<Rightarrow> error + string) \<Rightarrow> inst \<Rightarrow> string \<Rightarrow> string
     \<Rightarrow> error + (string \<times> string \<times> inst)" where
  "ldr_str_addressing simplify self m src0 =
     (case re_match (ldr_str_regexp m) (strip_comment src0) of
        None \<Rightarrow> Inl (ParsingException (''Doesn'' @ [CHR 0x27] @ ''t match pattern''))
      | Some p \<Rightarrow>
         (let wb = (grp_str p ''writeback'' = ''!'');
              i1 = self\<lparr>addr := Some (grp_str p ''addr''), writeback := Some wb,
                        pre_index := group p ''addroffset'', post_index := group p ''postinc''\<rparr>;
              i2 = i1\<lparr>increment :=
                        (if wb then pre_index i1
                         else if post_index i1 \<noteq> None \<and> post_index i1 \<noteq> Some []
                              then post_index i1
                         else None)\<rparr>
          in case simplify_offsets simplify i2 of
               Inl e \<Rightarrow> Inl e
             | Inr i3 \<Rightarrow> Inr (grp_str p ''dest'', grp_str p ''addr'', i3)))"

definition x_str_init :: inst where
  "x_str_init = Instruction_init ''x_str'' ''str'' [GPR, GPR] [] []"

definition x_str_parse :: "(string \<Rightarrow> error + string) \<Rightarrow> string \<Rightarrow> error + inst" where
  "x_str_parse simplify src =
     (case ldr_str_addressing simplify x_str_init ''str'' src of
        Inl e \<Rightarrow> Inl e
      | Inr (gpr, a, i) \<Rightarrow> Inr (i\<lparr>args_in := [gpr, a], args_out := [], args_in_out := []\<rparr>))"

definition x_ldr_init :: inst where
  "x_ldr_init = Instruction_init ''x_ldr'' ''ldr'' [GPR] [] [GPR]"

definition x_ldr_parse :: "(string \<Rightarrow> error + string) \<Rightarrow> string \<Rightarrow> error + inst" where
  "x_ldr_parse simplify src =
     (case ldr_str_addressing simplify x_ldr_init ''ldr'' src of
        Inl e \<Rightarrow> Inl e
      | Inr (gpr, a, i) \<Rightarrow> Inr (i\<lparr>args_in := [a], args_out := [gpr], args_in_out := []\<rparr>))"

definition vldr_init :: inst where
  "vldr_init = Instruction_init ''vldr'' ''ldr'' [Neon] [] [GPR]"

definition vldr_parse :: "(string \<Rightarrow> error + string) \<Rightarrow> string \<Rightarrow> error + inst" where
  "vldr_parse simplify src =
     (case ldr_str_addressing simplify vldr_init ''ldr'' src of
        Inl e \<Rightarrow> Inl e
      | Inr (vec, a, i) \<Rightarrow> Inr (i\<lparr>args_in := [a], args_out := [vec], args_in_out := []\<rparr>))"

text \<open>\<^verbatim>\<open>vstr.parse\<close> raises before anything else.\<close>

definition vstr_parse :: "string \<Rightarrow> error + inst" where
  "vstr_parse src = Inl (ParsingException ''Disabled for now'')"

subsection \<open>Grouped loads and stores: \<^verbatim>\<open>st4\<close>, \<^verbatim>\<open>ld4\<close>, \<^verbatim>\<open>ld2\<close>\<close>

text \<open>
  \<^verbatim>\<open>Instruction.unfold_abbrevs\<close> on an expression with more than one \<^verbatim>\<open><dt\<close>: each
  \<^verbatim>\<open><dt{i}>\<close> becomes \<^verbatim>\<open>(?P<datatype{i}>(?:2|4|8|16)(?:B|H|S|D))\<close>.
\<close>

definition dt_abbrev :: "nat \<Rightarrow> rx" where
  "dt_abbrev i = Grp (''datatype'' @ str_nat i)
     (Seq (Alt (Str ''2'') (Alt (Str ''4'') (Alt (Str ''8'') (Str ''16''))))
          (One [Ch CHR ''B'', Ch CHR ''H'', Ch CHR ''S'', Ch CHR ''D'']))"

text \<open>\<^verbatim>\<open>[ f"v{i}", ..., f"v{i+k-1}" ] for i in range(lo, hi)\<close>.\<close>

definition consecutive :: "nat \<Rightarrow> nat \<Rightarrow> nat \<Rightarrow> string list list" where
  "consecutive k lo hi = map (\<lambda>i. map (\<lambda>j. ''v'' @ str_nat (i + j)) [0..<k]) [lo..<hi]"

text \<open>
  The register list in braces: \<^verbatim>\<open>\s*(?P<out0>\w+)\.<dt0>\s*,\<close> for the first register,
  \<^verbatim>\<open>\s*(?P<out{i}>\w+)\s*\.<dt{i}>,\<close> for one in the middle and
  \<^verbatim>\<open>\s*(?P<out{n}>\w+)\s*\.<dt{n}>}\<close> for the last one.
\<close>

definition first_reg_rx :: "rx list" where
  "first_reg_rx = [Star [Space], Grp ''out0'' (Plus [Word]), Str ''.'', dt_abbrev 0,
     Star [Space], Str '','']"

definition next_reg_rx :: "nat \<Rightarrow> string \<Rightarrow> rx list" where
  "next_reg_rx i closing = [Star [Space], Grp (''out'' @ str_nat i) (Plus [Word]), Star [Space],
     Str ''.'', dt_abbrev i, Str closing]"

definition base_reg_rx :: "rx list" where
  "base_reg_rx = [Star [Space], Str '','', Star [Space], Str ''['', Star [Space],
     Grp ''reg'' (Plus [Word]), Star [Space], Str '']'']"

definition st4_regexp :: rx where
  "st4_regexp = seqs ([Star [Space], Grp ''1'' (Str ''st4''), Plus [Space], Str ''{''] @ first_reg_rx
     @ next_reg_rx 1 '','' @ next_reg_rx 2 '','' @ next_reg_rx 3 ''}'' @ base_reg_rx
     @ [Str '','', Star [Space], Str ''#'', Grp ''increment'' (Star [AnyCh])])"

definition ld4_regexp :: rx where
  "ld4_regexp = seqs ([Star [Space], Grp ''1'' (Str ''ld4''), Plus [Space], Str ''{''] @ first_reg_rx
     @ next_reg_rx 1 '','' @ next_reg_rx 2 '','' @ next_reg_rx 3 ''}'' @ base_reg_rx
     @ [Star [Space], Opt (seqs [Str '','', Star [Space], Str ''#'', Grp ''increment'' (Star [AnyCh])])])"

definition ld2_regexp :: rx where
  "ld2_regexp = seqs ([Star [Space], Grp ''1'' (Str ''ld2''), Plus [Space], Str ''{''] @ first_reg_rx
     @ next_reg_rx 1 ''}'' @ base_reg_rx
     @ [Str '','', Star [Space], Str ''#'', Grp ''increment'' (Star [AnyCh])])"

definition didnt_match :: error where
  "didnt_match = ParsingException (''Didn'' @ [CHR 0x27] @ ''t match regexp'')"

definition st4_init :: inst where
  "st4_init = Instruction_init ''st4'' ''st4'' [GPR, Neon, Neon, Neon, Neon] [] []"

definition st4_parse :: "string \<Rightarrow> error + inst" where
  "st4_parse src = (case re_match st4_regexp src of
       None \<Rightarrow> Inl didnt_match
     | Some p \<Rightarrow> Inr (st4_init\<lparr>
         addr := Some (grp_str p ''reg''),
         args_in := [grp_str p ''reg'', grp_str p ''out0'', grp_str p ''out1'',
                     grp_str p ''out2'', grp_str p ''out3''],
         data_types := Some [grp_str p ''datatype0'', grp_str p ''datatype1'',
                             grp_str p ''datatype2'', grp_str p ''datatype3''],
         args_in_out := [], args_out := [],
         increment := group p ''increment'', pre_index := None,
         args_in_combinations := Some [([1, 2, 3, 4], consecutive 4 0 28)]\<rparr>))"

definition ld4_init :: inst where
  "ld4_init = Instruction_init ''ld4'' ''ld4'' [] [GPR] [Neon, Neon, Neon, Neon]"

definition ld4_parse :: "string \<Rightarrow> error + inst" where
  "ld4_parse src = (case re_match ld4_regexp src of
       None \<Rightarrow> Inl didnt_match
     | Some p \<Rightarrow> Inr (ld4_init\<lparr>
         addr := Some (grp_str p ''reg''),
         args_in := [],
         args_out := [grp_str p ''out0'', grp_str p ''out1'', grp_str p ''out2'', grp_str p ''out3''],
         data_types := Some [grp_str p ''datatype0'', grp_str p ''datatype1'',
                             grp_str p ''datatype2'', grp_str p ''datatype3''],
         args_in_out := [grp_str p ''reg''],
         increment := group p ''increment'', pre_index := None,
         args_out_combinations := Some [([0, 1, 2, 3], consecutive 4 0 28)]\<rparr>))"

definition ld2_init :: inst where
  "ld2_init = Instruction_init ''ld2'' ''ld2'' [GPR] [] [Neon, Neon]"

definition ld2_parse :: "string \<Rightarrow> error + inst" where
  "ld2_parse src = (case re_match ld2_regexp src of
       None \<Rightarrow> Inl didnt_match
     | Some p \<Rightarrow> Inr (ld2_init\<lparr>
         addr := Some (grp_str p ''reg''),
         args_in := [grp_str p ''reg''],
         args_out := [grp_str p ''out0'', grp_str p ''out1''],
         data_types := Some [grp_str p ''datatype0'', grp_str p ''datatype1''],
         args_in_out := [],
         increment := group p ''increment'', pre_index := None,
         args_out_combinations := Some [([0, 1], consecutive 2 0 30)]\<rparr>))"

text \<open>
  \<^verbatim>\<open>stack_vld2_lane\<close>, the fourth class with a combination list:
  \<^verbatim>\<open>stack_vld2_lane\s+(?P<dst1>\w+)\s*,\s*(?P<dst2>\w+)\s*,\s*(?P<src1>\w+)\s*,\s*(?P<src2>\w+)\s*,\s*(?P<lane>.*),\s*(?P<immediate>.*)\<close>.
\<close>

definition stack_vld2_lane_regexp :: rx where
  "stack_vld2_lane_regexp = seqs [Str ''stack_vld2_lane'', Plus [Space],
     Grp ''dst1'' (Plus [Word]), Star [Space], Str '','', Star [Space],
     Grp ''dst2'' (Plus [Word]), Star [Space], Str '','', Star [Space],
     Grp ''src1'' (Plus [Word]), Star [Space], Str '','', Star [Space],
     Grp ''src2'' (Plus [Word]), Star [Space], Str '','', Star [Space],
     Grp ''lane'' (Star [AnyCh]), Str '','', Star [Space], Grp ''immediate'' (Star [AnyCh])]"

definition stack_vld2_lane_init :: inst where
  "stack_vld2_lane_init =
     Instruction_init ''stack_vld2_lane'' ''stack_vld2_lane'' [StackAny] [Neon, Neon, GPR] []"

definition stack_vld2_lane_parse :: "string \<Rightarrow> error + inst" where
  "stack_vld2_lane_parse src = (case re_match stack_vld2_lane_regexp src of
       None \<Rightarrow> Inl does_not_match
     | Some p \<Rightarrow> Inr (stack_vld2_lane_init\<lparr>
         args_in := [grp_str p ''src2''],
         args_in_out := [grp_str p ''dst1'', grp_str p ''dst2'', grp_str p ''src1''],
         args_out := [],
         lane := Some (grp_str p ''lane''),
         immediate := Some (grp_str p ''immediate''),
         args_in_out_combinations := Some [([0, 1], consecutive 2 0 31)],
         addr := Some (grp_str p ''src1''),
         increment := Some (grp_str p ''immediate''),
         detected_stack_vld2_lane_pair := Some False\<rparr>))"

subsection \<open>\<^verbatim>\<open>vins\<close> and its pair-fusion callback\<close>

text \<open>\<^verbatim>\<open>vins\s+(?P<dst>\w+)\s*, (?P<src>\w+)\s*,\s*(?P<lane>\w*)\<close>, and the same for \<^verbatim>\<open>vext\<close>.\<close>

definition vins_regexp :: "string \<Rightarrow> rx" where
  "vins_regexp m = seqs [Str m, Plus [Space], Grp ''dst'' (Plus [Word]), Star [Space], Str '', '',
     Grp ''src'' (Plus [Word]), Star [Space], Str '','', Star [Space], Grp ''lane'' (Star [Word])]"

definition vins_init :: inst where
  "vins_init = Instruction_init ''vins'' ''vins'' [GPR] [Neon] []"

definition vins_parse :: "string \<Rightarrow> error + inst" where
  "vins_parse src = (case re_match (vins_regexp ''vins'') src of
       None \<Rightarrow> Inl does_not_match
     | Some p \<Rightarrow> Inr (vins_init\<lparr>
         args_out := [], args_in := [grp_str p ''src''], args_in_out := [grp_str p ''dst''],
         lane := Some (grp_str p ''lane''), detected_vins_pair := Some False\<rparr>))"

definition vext_init :: inst where
  "vext_init = Instruction_init ''vext'' ''vext'' [Neon] [GPR] []"

definition vext_parse :: "string \<Rightarrow> error + inst" where
  "vext_parse src = (case re_match (vins_regexp ''vext'') src of
       None \<Rightarrow> Inl does_not_match
     | Some p \<Rightarrow> Inr (vext_init\<lparr>
         args_out := [], args_in := [grp_str p ''src''], args_in_out := [grp_str p ''dst''],
         lane := Some (grp_str p ''lane'')\<rparr>))"

text \<open>
  What the callback reads of the node \<^verbatim>\<open>t\<close> of the dataflow graph: for each in-out
  operand of the instruction, the instructions of the nodes that consume it
  (\<^verbatim>\<open>r.inst\<close> for \<^verbatim>\<open>r\<close> in \<^verbatim>\<open>t.dst_in_out[i]\<close>).
\<close>

record node =
  dst_in_out :: "inst list list"

text \<open>
  \<^verbatim>\<open>vins_parsing_cb()\<close>, that is its inner function \<^verbatim>\<open>core(inst, t, delete_list)\<close>. It
  changes \<^verbatim>\<open>inst\<close> in place; the model returns the flag and the instruction after the call.
\<close>

definition vins_pair_successor :: "inst \<Rightarrow> inst list \<Rightarrow> bool" where
  "vins_pair_successor i consumers =
     (case consumers of
        [r] \<Rightarrow> cls r = ''vins'' \<and> args_in_out r = args_in_out i \<and>
                {lane r, lane i} = {Some ''0'', Some ''1''}
      | _ \<Rightarrow> False)"

definition vins_parsing_cb :: "inst \<Rightarrow> node \<Rightarrow> error + (bool \<times> inst)" where
  "vins_parsing_cb i t =
     (case detected_vins_pair i of
        None \<Rightarrow> Inl (AttributeError ''detected_vins_pair'')
      | Some True \<Rightarrow> Inr (False, i)
      | Some False \<Rightarrow>
         (case dst_in_out t of
            [] \<Rightarrow> Inl IndexError
          | consumers # _ \<Rightarrow>
             if \<not> vins_pair_successor i consumers then Inr (False, i)
             else (case args_in_out i of
                     [] \<Rightarrow> Inl IndexError
                   | reg # _ \<Rightarrow>
                       Inr (True, i\<lparr>num_out := 1, args_out := [reg], arg_types_out := [Neon],
                                     args_out_restrictions := args_in_out_restrictions i,
                                     num_in_out := 0, args_in_out := [], arg_types_in_out := [],
                                     args_in_out_restrictions := [],
                                     detected_vins_pair := Some True\<rparr>))))"

subsection \<open>The other classes with an expression of their own\<close>

text \<open>
  \<^verbatim>\<open>sub_shifted\<close> and \<^verbatim>\<open>add_shifted\<close>:
  \<^verbatim>\<open>sub\s+(?P<dst>\w+)\s*,\s*(?P<src>\w+)\s*,\s*#(?P<shift>.*)\<close>.
\<close>

definition shifted_regexp :: "string \<Rightarrow> rx" where
  "shifted_regexp m = seqs [Str m, Plus [Space], Grp ''dst'' (Plus [Word]), Star [Space],
     Str '','', Star [Space], Grp ''src'' (Plus [Word]), Star [Space], Str '','', Star [Space],
     Str ''#'', Grp ''shift'' (Star [AnyCh])]"

definition shifted_parse :: "inst \<Rightarrow> string \<Rightarrow> error + inst" where
  "shifted_parse self src = (case re_match (shifted_regexp (mnemonic self)) src of
       None \<Rightarrow> Inl does_not_match
     | Some p \<Rightarrow> Inr (self\<lparr>args_in := [grp_str p ''src''], args_out := [grp_str p ''dst''],
                          args_in_out := [], shift := Some (grp_str p ''shift'')\<rparr>))"

definition sub_shifted_init :: inst where
  "sub_shifted_init = Instruction_init ''sub_shifted'' ''sub'' [GPR] [] [GPR]"

definition add_shifted_init :: inst where
  "add_shifted_init = Instruction_init ''add_shifted'' ''add'' [GPR] [] [GPR]"

text \<open>\<^verbatim>\<open>mov_imm\<close>: \<^verbatim>\<open>mov\s+(?P<dst>\w+)\s*,\s*#(?P<immediate>\w*)\<close>.\<close>

definition mov_imm_init :: inst where
  "mov_imm_init = Instruction_init ''mov_imm'' ''mov'' [] [] [GPR]"

definition mov_imm_parse :: "string \<Rightarrow> error + inst" where
  "mov_imm_parse src =
     (case re_match (seqs [Str ''mov'', Plus [Space], Grp ''dst'' (Plus [Word]), Star [Space],
               Str '','', Star [Space], Str ''#'', Grp ''immediate'' (Star [Word])]) src of
        None \<Rightarrow> Inl does_not_match
      | Some p \<Rightarrow> Inr (mov_imm_init\<lparr>args_out := [grp_str p ''dst''], args_in := [],
                           args_in_out := [], immediate := Some (grp_str p ''immediate'')\<rparr>))"

text \<open>
  \<^verbatim>\<open>fcsel_dform\<close>:
  \<^verbatim>\<open>fcsel_dform\s+(?P<dst>\w+)\s*,\s*(?P<src1>\w+)\s*,\s*(?P<src2>\w+)\s*,\s*eq\<close>.
\<close>

definition fcsel_dform_init :: inst where
  "fcsel_dform_init = Instruction_init ''fcsel_dform'' ''fcsel_dform'' [Neon, Neon, Flags] [] [Neon]"

definition fcsel_dform_parse :: "string \<Rightarrow> error + inst" where
  "fcsel_dform_parse src =
     (case re_match (seqs [Str ''fcsel_dform'', Plus [Space], Grp ''dst'' (Plus [Word]),
               Star [Space], Str '','', Star [Space], Grp ''src1'' (Plus [Word]),
               Star [Space], Str '','', Star [Space], Grp ''src2'' (Plus [Word]),
               Star [Space], Str '','', Star [Space], Str ''eq'']) src of
        None \<Rightarrow> Inl does_not_match
      | Some p \<Rightarrow> Inr (fcsel_dform_init\<lparr>
           args_in := [grp_str p ''src1'', grp_str p ''src2'', ''flags''],
           args_out := [grp_str p ''dst''], args_in_out := []\<rparr>))"

text \<open>
  \<^verbatim>\<open>mov_vtox\<close>:
  \<^verbatim>\<open>mov\s+(?P<dst>\w+)\s*,\s*(?P<src>\w+)\s*\.d\s*\[\s*(?P<immediate>\w*)\s*\]\<close>.
\<close>

definition mov_vtox_init :: inst where
  "mov_vtox_init = Instruction_init ''mov_vtox'' ''mov'' [Neon] [] [GPR]"

definition mov_vtox_parse :: "string \<Rightarrow> error + inst" where
  "mov_vtox_parse src =
     (case re_match (seqs [Str ''mov'', Plus [Space], Grp ''dst'' (Plus [Word]), Star [Space],
               Str '','', Star [Space], Grp ''src'' (Plus [Word]), Star [Space], Str ''.d'',
               Star [Space], Str ''['', Star [Space], Grp ''immediate'' (Star [Word]),
               Star [Space], Str '']'']) src of
        None \<Rightarrow> Inl does_not_match
      | Some p \<Rightarrow> Inr (mov_vtox_init\<lparr>args_out := [grp_str p ''dst''],
           args_in := [grp_str p ''src''], args_in_out := [],
           immediate := Some (grp_str p ''immediate'')\<rparr>))"

text \<open>
  \<^verbatim>\<open>mov_xtov\<close>:
  \<^verbatim>\<open>mov\s+\s*(?P<dst>\w+)\s*\.d\s*\[\s*(?P<immediate>\w*)\s*\]\s*,\s*(?P<src>\w+)\s*\<close>.
\<close>

definition mov_xtov_init :: inst where
  "mov_xtov_init = Instruction_init ''mov_xtov'' ''mov'' [GPR] [Neon] []"

definition mov_xtov_parse :: "string \<Rightarrow> error + inst" where
  "mov_xtov_parse src =
     (case re_match (seqs [Str ''mov'', Plus [Space], Star [Space], Grp ''dst'' (Plus [Word]),
               Star [Space], Str ''.d'', Star [Space], Str ''['', Star [Space],
               Grp ''immediate'' (Star [Word]), Star [Space], Str '']'', Star [Space],
               Str '','', Star [Space], Grp ''src'' (Plus [Word]), Star [Space]]) src of
        None \<Rightarrow> Inl does_not_match
      | Some p \<Rightarrow> Inr (mov_xtov_init\<lparr>args_out := [], args_in := [grp_str p ''src''],
           args_in_out := [grp_str p ''dst''],
           immediate := Some (grp_str p ''immediate'')\<rparr>))"

subsection \<open>\<^verbatim>\<open>AArch64Instruction\<close>: classes given by a pattern\<close>

text \<open>
  \<^verbatim>\<open>_unfold_pattern\<close> rewrites the pattern into an expression, by a chain of \<^verbatim>\<open>re.sub\<close>:
  a dot, an opening and a closing bracket each allow white space around them; a register
  \<^verbatim>\<open><Xname>\<close> (its first letter one of \<^verbatim>\<open>B H W X V\<close>) becomes
  \<^verbatim>\<open>([xX](?P<raw_Xname>[0-9][0-9]?)|([xX]<(?P<symbol_Xname>\w+)>))\<close>; \<^verbatim>\<open><dt0>\<close>,
  \<^verbatim>\<open><dt1>\<close>, ... become \<^verbatim>\<open>(?P<datatype0>(?:|2|4|8|16)(?:B|H|S|D|b|h|s|d))\<close>, ... when
  the pattern has more than one \<^verbatim>\<open><dt\<close>, and otherwise \<^verbatim>\<open><dt>\<close> becomes
  \<^verbatim>\<open>(?P<datatype>(?:2|4|8|16)(?:B|H|S|D|b|h|s|d))\<close>; a blank becomes \<^verbatim>\<open>\s+\<close>, a comma
  \<^verbatim>\<open>\s*,\s*\<close>; \<^verbatim>\<open><imm>\<close> becomes \<^verbatim>\<open>(?P<imm>(\w|\s|#|=|,)+)\<close> and \<^verbatim>\<open><index>\<close>
  becomes \<^verbatim>\<open>(?P<index>[0-9]+)\<close>; the whole is put between \<^verbatim>\<open>\s*\<close> and
  \<^verbatim>\<open>\s*(//.*)?\Z\<close>. No text that one step puts in holds what a later step looks for, so
  the model reads the pattern once, from left to right. The patterns of the file are made of
  these pieces and of letters, digits and underscores, which stand for themselves.
\<close>

definition count_dt :: "string \<Rightarrow> nat" where
  "count_dt s = length (filter (\<lambda>i. take 3 (drop i s) = ''<dt'') [0..<length s])"

definition register_letters :: "char list" where
  "register_letters = [CHR ''B'', CHR ''H'', CHR ''W'', CHR ''X'', CHR ''V'']"

definition register_rx :: "string \<Rightarrow> rx" where
  "register_rx name =
     (let letter = One [Ch (lower_char (hd name)), Ch (hd name)]
      in Alt (Seq letter (Grp (''raw_'' @ name) (Seq (One [Digit]) (Opt (One [Digit])))))
             (Seq letter (Seq (Str ''<'') (Seq (Grp (''symbol_'' @ name) (Plus [Word])) (Str ''>'')))))"

definition dt_letter :: rx where
  "dt_letter = One [Ch CHR ''B'', Ch CHR ''H'', Ch CHR ''S'', Ch CHR ''D'',
                    Ch CHR ''b'', Ch CHR ''h'', Ch CHR ''s'', Ch CHR ''d'']"

definition dt_count :: rx where
  "dt_count = Alt (Str ''2'') (Alt (Str ''4'') (Alt (Str ''8'') (Str ''16'')))"

definition placeholder_rx :: "nat \<Rightarrow> string \<Rightarrow> rx" where
  "placeholder_rx dts name =
     (if name \<noteq> [] \<and> hd name \<in> set register_letters \<and> tl name \<noteq> [] \<and> list_all is_word (tl name)
      then register_rx name
      else if 1 < dts \<and> take 2 name = ''dt'' \<and> drop 2 name \<in> set (map str_nat [0..<dts])
      then Grp (''datatype'' @ drop 2 name) (Seq (Alt Eps dt_count) dt_letter)
      else if dts \<le> 1 \<and> name = ''dt''
      then Grp ''datatype'' (Seq dt_count dt_letter)
      else if name = ''imm''
      then Grp ''imm'' (Plus [Word, Space, Ch CHR ''#'', Ch CHR ''='', Ch CHR '',''])
      else if name = ''index''
      then Grp ''index'' (Plus [Digit])
      else Str (''<'' @ name @ ''>''))"

definition piece_rx :: "char \<Rightarrow> rx list" where
  "piece_rx c =
     (if c = CHR ''.'' \<or> c = CHR ''['' \<or> c = CHR '']'' then [Star [Space], Str [c], Star [Space]]
      else if c = CHR '' '' then [Plus [Space]]
      else if c = CHR '','' then [Star [Space], Str '','', Star [Space]]
      else [Str [c]])"

text \<open>
  \<open>unfold_chars dts open cs\<close>: the pieces of the rest \<open>cs\<close> of the pattern; \<open>open\<close> holds the
  characters read since a \<^verbatim>\<open><\<close> that waits for its \<^verbatim>\<open>>\<close>, the last one first.
\<close>

fun unfold_chars :: "nat \<Rightarrow> string option \<Rightarrow> string \<Rightarrow> rx list" where
  "unfold_chars dts None [] = []"
| "unfold_chars dts (Some acc) [] = [Str (CHR ''<'' # rev acc)]"
| "unfold_chars dts None (c # cs) =
     (if c = CHR ''<'' then unfold_chars dts (Some []) cs
      else piece_rx c @ unfold_chars dts None cs)"
| "unfold_chars dts (Some acc) (c # cs) =
     (if c = CHR ''>'' then placeholder_rx dts (rev acc) # unfold_chars dts None cs
      else unfold_chars dts (Some (c # acc)) cs)"

definition unfold_pattern :: "string \<Rightarrow> rx" where
  "unfold_pattern src = seqs ([Star [Space]] @ unfold_chars (count_dt src) None src
     @ [Star [Space], Opt (Seq (Str ''//'') (Star [AnyCh])), Eos])"

text \<open>\<^verbatim>\<open>AArch64Instruction.infer_register_type\<close> and \<^verbatim>\<open>AArch64Instruction.__init__\<close>.\<close>

definition infer_register_type :: "string \<Rightarrow> error + RegisterType" where
  "infer_register_type ptrn =
     (case ptrn of
        [] \<Rightarrow> Inl IndexError
      | c # _ \<Rightarrow>
          if c \<in> {CHR ''X'', CHR ''x'', CHR ''W'', CHR ''w''} then Inr GPR
          else if c \<in> {CHR ''V'', CHR ''v'', CHR ''Q'', CHR ''q''} then Inr Neon
          else Inl (Exception ''Unknown pattern''))"

fun infer_register_types :: "string list \<Rightarrow> error + RegisterType list" where
  "infer_register_types [] = Inr []"
| "infer_register_types (r # rs) =
     (case infer_register_type r of
        Inl e \<Rightarrow> Inl e
      | Inr ty \<Rightarrow> (case infer_register_types rs of Inl e \<Rightarrow> Inl e | Inr tys \<Rightarrow> Inr (ty # tys)))"

definition AArch64Instruction_init ::
  "string \<Rightarrow> string \<Rightarrow> string list \<Rightarrow> string list \<Rightarrow> string list \<Rightarrow> bool \<Rightarrow> error + inst" where
  "AArch64Instruction_init c pattern inputs outputs0 in_outs modifiesFlags =
     (case infer_register_types inputs of Inl e \<Rightarrow> Inl e | Inr tys_in \<Rightarrow>
      case infer_register_types outputs0 of Inl e \<Rightarrow> Inl e | Inr tys_out0 \<Rightarrow>
      case infer_register_types in_outs of Inl e \<Rightarrow> Inl e | Inr tys_in_out \<Rightarrow>
        (let outputs = outputs0 @ (if modifiesFlags then [''flags''] else []);
             tys_out = tys_out0 @ (if modifiesFlags then [Flags] else [])
         in Inr ((Instruction_init c pattern tys_in tys_in_out tys_out)\<lparr>
                   pattern_inputs := zip inputs tys_in,
                   pattern_outputs := zip outputs tys_out,
                   pattern_in_outs := zip in_outs tys_in_out\<rparr>)))"

text \<open>
  \<^verbatim>\<open>str.isdigit()\<close>, on code points below 256: the decimal digits and the superscripts
  1, 2 and 3.
\<close>

definition isdigit :: "string \<Rightarrow> bool" where
  "isdigit s = (s \<noteq> [] \<and> list_all (\<lambda>x. is_digit x \<or> of_char x \<in> {178, 179, 185 :: nat}) s)"

text \<open>\<^verbatim>\<open>AArch64Instruction._to_reg\<close>.\<close>

definition to_reg :: "RegisterType \<Rightarrow> string \<Rightarrow> string" where
  "to_reg ty s = (if isdigit s then (if ty = GPR then ''x'' else ''v'') @ s else s)"

text \<open>
  The dictionary that the parser of a pattern returns: the text of a register is under the
  name of the register, whether it was found as a number or as a symbol.
\<close>

definition pattern_value :: "groups \<Rightarrow> string \<Rightarrow> string option" where
  "pattern_value p name =
     (case group p (''raw_'' @ name) of
        Some v \<Rightarrow> Some v
      | None \<Rightarrow> (case group p (''symbol_'' @ name) of Some v \<Rightarrow> Some v | None \<Rightarrow> group p name))"

text \<open>
  The register lists: \<^verbatim>\<open>_to_reg(ty, res[s])\<close> for each name of the pattern; in the list of
  outputs the name \<^verbatim>\<open>flags\<close> gives the register \<^verbatim>\<open>flags\<close>.
\<close>

fun pattern_registers ::
  "bool \<Rightarrow> groups \<Rightarrow> (string \<times> RegisterType) list \<Rightarrow> error + string list" where
  "pattern_registers out p [] = Inr []"
| "pattern_registers out p ((s, ty) # rest) =
     (if out \<and> ty = Flags then
        (case pattern_registers out p rest of Inl e \<Rightarrow> Inl e | Inr rs \<Rightarrow> Inr (''flags'' # rs))
      else case pattern_value p s of
        None \<Rightarrow> Inl (KeyError s)
      | Some v \<Rightarrow>
         (case pattern_registers out p rest of
            Inl e \<Rightarrow> Inl e | Inr rs \<Rightarrow> Inr (to_reg ty v # rs)))"

text \<open>
  The datatype of a pattern: one text for \<^verbatim>\<open><dt>\<close>, a list for \<^verbatim>\<open><dt0>\<close>, \<^verbatim>\<open><dt1>\<close>,
  \<^verbatim>\<open><dt2>\<close>; \<^verbatim>\<open>self.datatype += ...\<close> needs the attribute to be there.
\<close>

definition pattern_datatype :: "groups \<Rightarrow> dtval option \<Rightarrow> error + dtval option" where
  "pattern_datatype p before =
     (case group p ''datatype'' of
        Some d \<Rightarrow> Inr (Some (DtStr (lower d)))
      | None \<Rightarrow>
         (let d0 = (case group p ''datatype0'' of
                      None \<Rightarrow> before | Some d \<Rightarrow> Some (DtList [lower d]));
              more = (case group p ''datatype1'' of None \<Rightarrow> [] | Some d \<Rightarrow> [lower d])
                   @ (case group p ''datatype2'' of None \<Rightarrow> [] | Some d \<Rightarrow> [lower d])
          in if more = [] then Inr d0
             else case d0 of
                    None \<Rightarrow> Inl (AttributeError ''datatype'')
                  | Some (DtList ds) \<Rightarrow> Inr (Some (DtList (ds @ more)))
                  | Some (DtStr t) \<Rightarrow> Inl TypeError))"

text \<open>
  \<^verbatim>\<open>AArch64Instruction.parse\<close>. (The message of its \<^verbatim>\<open>ParsingException\<close> goes on with the
  pattern and the expression; the model keeps the fixed part.)
\<close>

definition AArch64Instruction_parse :: "inst \<Rightarrow> string \<Rightarrow> error + inst" where
  "AArch64Instruction_parse self src =
     (case re_match (unfold_pattern (mnemonic self)) src of
        None \<Rightarrow> Inl (ParsingException ''Does not match instruction pattern'')
      | Some p \<Rightarrow>
         (let i0 = self\<lparr>args_in := [], args_in_out := [], args_out := []\<rparr>
          in case pattern_datatype p (data_type i0) of Inl e \<Rightarrow> Inl e | Inr dt \<Rightarrow>
          (let i1 = i0\<lparr>data_type := dt\<rparr>;
               i2 = (case group p ''index'' of
                       None \<Rightarrow> i1 | Some t \<Rightarrow> i1\<lparr>index := Some (int_of_digits t)\<rparr>);
               i3 = (case group p ''imm'' of
                       None \<Rightarrow> i2 | Some t \<Rightarrow> i2\<lparr>immediate := Some t\<rparr>)
           in case pattern_registers False p (pattern_inputs self) of
                Inl e \<Rightarrow> Inl e | Inr ins \<Rightarrow>
              case pattern_registers True p (pattern_outputs self) of
                Inl e \<Rightarrow> Inl e | Inr outs \<Rightarrow>
              case pattern_registers False p (pattern_in_outs self) of
                Inl e \<Rightarrow> Inl e | Inr in_outs \<Rightarrow>
                Inr (i3\<lparr>args_in := ins, args_out := outs, args_in_out := in_outs\<rparr>))))"

text \<open>
  The parser of the five lane variants (\<^verbatim>\<open>vqrdmulh_lane\<close>, \<^verbatim>\<open>vqdmulh_lane\<close>,
  \<^verbatim>\<open>vmul_lane\<close>, \<^verbatim>\<open>vmla_lane\<close>, \<^verbatim>\<open>vmls_lane\<close>): the inherited one, then a restriction
  of the second input for the datatype \<^verbatim>\<open>8h\<close>.
\<close>

definition lane_parse :: "inst \<Rightarrow> string \<Rightarrow> error + inst" where
  "lane_parse self src =
     (case AArch64Instruction_parse self src of
        Inl e \<Rightarrow> Inl e
      | Inr i \<Rightarrow>
         (case data_type i of
            None \<Rightarrow> Inl (AttributeError ''datatype'')
          | Some (DtList []) \<Rightarrow> Inl IndexError
          | Some (DtStr []) \<Rightarrow> Inl IndexError
          | Some (DtStr (c # _)) \<Rightarrow> Inr i
          | Some (DtList (d # _)) \<Rightarrow>
              if d = ''8h''
              then Inr (i\<lparr>args_in_restrictions :=
                           [Some (regs_named ''v'' 0 32), Some (regs_named ''v'' 0 16)]\<rparr>)
              else Inr i))"

subsection \<open>The classes of the file, and \<^verbatim>\<open>Instruction.parser\<close>\<close>

text \<open>
  The classes that model a stack slot: the inherited parser, with \<^verbatim>\<open>addr\<close> set to
  \<^verbatim>\<open>sp\<close> and \<^verbatim>\<open>increment\<close> to \<^verbatim>\<open>None\<close> by \<^verbatim>\<open>__init__\<close>.
\<close>

definition stack_class :: "string \<Rightarrow> RegisterType list \<Rightarrow> RegisterType list \<Rightarrow> inst" where
  "stack_class c tys_in tys_out = (Instruction_init c c tys_in [] tys_out)\<lparr>addr := Some ''sp''\<rparr>"

definition ldr_vo_wrapper_init :: inst where
  "ldr_vo_wrapper_init = Instruction_init ''ldr_vo_wrapper'' ''ldr_vo'' [GPR] [] [Neon]"

definition ldr_vi_wrapper_init :: inst where
  "ldr_vi_wrapper_init = Instruction_init ''ldr_vi_wrapper'' ''ldr_vi'' [GPR] [] [Neon]"

definition str_vo_wrapper_init :: inst where
  "str_vo_wrapper_init = Instruction_init ''str_vo_wrapper'' ''str_vo'' [Neon, GPR] [] []"

definition str_vi_wrapper_init :: inst where
  "str_vi_wrapper_init = Instruction_init ''str_vi_wrapper'' ''str_vi'' [Neon, GPR] [] []"

text \<open>
  A class given by a pattern: its object is made by \<^verbatim>\<open>__init__\<close> (which may raise), then
  asked to parse. \<open>a\<close> is the \<^verbatim>\<open>addr\<close> that \<^verbatim>\<open>__init__\<close> sets, if any.
\<close>

definition pattern_class ::
  "string \<Rightarrow> string \<Rightarrow> string list \<Rightarrow> string list \<Rightarrow> string list \<Rightarrow> bool \<Rightarrow> string option
     \<Rightarrow> (inst \<Rightarrow> string \<Rightarrow> error + inst) \<Rightarrow> string \<Rightarrow> error + inst" where
  "pattern_class c pattern inputs outputs in_outs modifiesFlags a parse_with src =
     (case AArch64Instruction_init c pattern inputs outputs in_outs modifiesFlags of
        Inl e \<Rightarrow> Inl e
      | Inr self \<Rightarrow> parse_with (self\<lparr>addr := a\<rparr>) src)"

text \<open>
  \<^verbatim>\<open>Instruction.__subclasses__()\<close> without \<^verbatim>\<open>AArch64Instruction\<close>, in the order in which the
  file defines the classes: each class with what making an object of it and calling its
  \<^verbatim>\<open>parse\<close> gives.
\<close>

definition Instruction_subclasses ::
  "(string \<Rightarrow> error + string) \<Rightarrow> (string \<times> (string \<Rightarrow> error + inst)) list" where
  "Instruction_subclasses simplify = [
      (''qsave'', Instruction_parse (stack_class ''qsave'' [Neon] [StackNeon])),
      (''qrestore'', Instruction_parse (stack_class ''qrestore'' [StackNeon] [Neon])),
      (''save'', Instruction_parse (stack_class ''save'' [GPR] [StackGPR])),
      (''restore'', Instruction_parse (stack_class ''restore'' [StackGPR] [GPR])),
      (''stack_vstp_dform'', Instruction_parse (stack_class ''stack_vstp_dform'' [Neon, Neon] [StackAny, StackAny])),
      (''stack_vstr_dform'', Instruction_parse (stack_class ''stack_vstr_dform'' [Neon] [StackAny])),
      (''stack_stp'', Instruction_parse (stack_class ''stack_stp'' [GPR, GPR] [StackAny, StackAny])),
      (''stack_stp_wform'', Instruction_parse (stack_class ''stack_stp_wform'' [GPR, GPR] [StackAny, StackAny])),
      (''stack_str'', Instruction_parse (stack_class ''stack_str'' [GPR] [StackAny])),
      (''stack_ldr'', Instruction_parse (stack_class ''stack_ldr'' [StackAny] [GPR])),
      (''stack_vld1r'', Instruction_parse (stack_class ''stack_vld1r'' [StackAny] [Neon])),
      (''stack_vldr_bform'', Instruction_parse (stack_class ''stack_vldr_bform'' [StackAny] [Neon])),
      (''stack_vldr_dform'', Instruction_parse (stack_class ''stack_vldr_dform'' [StackAny] [Neon])),
      (''stack_vld2_lane'', stack_vld2_lane_parse),
      (''nop'', Instruction_parse (Instruction_init ''nop'' ''nop'' [] [] [])),
      (''sub_shifted'', shifted_parse sub_shifted_init),
      (''add_shifted'', shifted_parse add_shifted_init),
      (''cbnz'', Instruction_parse (Instruction_init ''cbnz'' ''cbnz'' [GPR] [] [])),
      (''mov_imm'', mov_imm_parse),
      (''fcsel_dform'', fcsel_dform_parse),
      (''mov_vtox'', mov_vtox_parse),
      (''mov_xtov'', mov_xtov_parse),
      (''ldr_vo_wrapper'', wrapper_parse ldr_vo_wrapper_init True 0),
      (''ldr_vi_wrapper'', wrapper_parse ldr_vi_wrapper_init False 0),
      (''str_vo_wrapper'', wrapper_parse str_vo_wrapper_init True 1),
      (''str_vi_wrapper'', wrapper_parse str_vi_wrapper_init False 1),
      (''x_str'', x_str_parse simplify),
      (''x_ldr'', x_ldr_parse simplify),
      (''vstr'', vstr_parse),
      (''vldr'', vldr_parse simplify),
      (''vins'', vins_parse),
      (''vext'', vext_parse),
      (''st4'', st4_parse),
      (''ld4'', ld4_parse),
      (''ld2'', ld2_parse)]"

text \<open>\<^verbatim>\<open>AArch64Instruction.__subclasses__()\<close>, in the order of the file.\<close>

definition AArch64Instruction_subclasses :: "(string \<times> (string \<Rightarrow> error + inst)) list" where
  "AArch64Instruction_subclasses = [
      (''vadd'', pattern_class ''vadd'' ''add <Va>.<dt0>, <Vb>.<dt1>, <Vc>.<dt2>''
         [''Vb'', ''Vc''] [''Va''] [] False None AArch64Instruction_parse),
      (''vsub'', pattern_class ''vsub'' ''sub <Va>.<dt0>, <Vb>.<dt1>, <Vc>.<dt2>''
         [''Vb'', ''Vc''] [''Va''] [] False None AArch64Instruction_parse),
      (''lsr_wform'', pattern_class ''lsr_wform'' ''lsr <Wd>, <Wa>, <Wb>''
         [''Wa'', ''Wb''] [''Wd''] [] False None AArch64Instruction_parse),
      (''asr_wform'', pattern_class ''asr_wform'' ''asr <Wd>, <Wa>, <imm>''
         [''Wa''] [''Wd''] [] False None AArch64Instruction_parse),
      (''eor_wform'', pattern_class ''eor_wform'' ''eor <Wd>, <Wa>, <Wb>''
         [''Wa'', ''Wb''] [''Wd''] [] False None AArch64Instruction_parse),
      (''subs_wform'', pattern_class ''subs_wform'' ''subs <Wd>, <Wa>, <imm>''
         [''Wa''] [''Wd''] [] False None AArch64Instruction_parse),
      (''subs'', pattern_class ''subs'' ''subs <Xd>, <Xa>, <imm>''
         [''Xa''] [''Xd''] [] True None AArch64Instruction_parse),
      (''add'', pattern_class ''add'' ''add <Xd>, <Xa>, <Xb>''
         [''Xa'', ''Xb''] [''Xd''] [] False None AArch64Instruction_parse),
      (''add2'', pattern_class ''add2'' ''add <Xd>, <Xa>, <Xb>, <imm>''
         [''Xa'', ''Xb''] [''Xd''] [] False None AArch64Instruction_parse),
      (''ldr_const'', pattern_class ''ldr_const'' ''ldr <Xd>, <imm>''
         [] [''Xd''] [] False None AArch64Instruction_parse),
      (''movk_imm'', pattern_class ''movk_imm'' ''movk <Xd>, <imm>''
         [] [] [''Xd''] False None AArch64Instruction_parse),
      (''mov'', pattern_class ''mov'' ''mov <Wd>, <Wa>''
         [''Wa''] [''Wd''] [] False None AArch64Instruction_parse),
      (''sub'', pattern_class ''sub'' ''sub <Xd>, <Xa>, <Xb>''
         [''Xa'', ''Xb''] [''Xd''] [] False None AArch64Instruction_parse),
      (''andi'', pattern_class ''andi'' ''and <Xd>, <Xa>, <imm>''
         [''Xa''] [''Xd''] [] False None AArch64Instruction_parse),
      (''bfi'', pattern_class ''bfi'' ''bfi <Xd>, <Xa>, <imm>''
         [''Xa''] [] [''Xd''] False None AArch64Instruction_parse),
      (''bic'', pattern_class ''bic'' ''bic <Xd>, <Xa>, <imm>''
         [''Xa''] [''Xd''] [] False None AArch64Instruction_parse),
      (''lsr'', pattern_class ''lsr'' ''lsr <Xd>, <Xa>, <imm>''
         [''Xa''] [''Xd''] [] False None AArch64Instruction_parse),
      (''umull_wform'', pattern_class ''umull_wform'' ''umull <Xd>, <Wa>, <Wb>''
         [''Wa'', ''Wb''] [''Xd''] [] False None AArch64Instruction_parse),
      (''umaddl_wform'', pattern_class ''umaddl_wform'' ''umaddl <Xn>, <Wa>, <Wb>, <Xacc>''
         [''Wa'', ''Wb'', ''Xacc''] [''Xn''] [] False None AArch64Instruction_parse),
      (''mul_wform'', pattern_class ''mul_wform'' ''mul <Wd>, <Wa>, <Wb>''
         [''Wa'', ''Wb''] [''Wd''] [] False None AArch64Instruction_parse),
      (''andi_wform'', pattern_class ''andi_wform'' ''and <Wd>, <Wa>, <imm>''
         [''Wa''] [''Wd''] [] False None AArch64Instruction_parse),
      (''tst_wform'', pattern_class ''tst_wform'' ''tst <Wa>, <imm>''
         [''Wa''] [] [] True None AArch64Instruction_parse),
      (''vand'', pattern_class ''vand'' ''and <Vd>.<dt0>, <Va>.<dt1>, <Vb>.<dt2>''
         [''Va'', ''Vb''] [''Vd''] [] False None AArch64Instruction_parse),
      (''vbic'', pattern_class ''vbic'' ''bic <Vd>.<dt0>, <Va>.<dt1>, <Vb>.<dt2>''
         [''Va'', ''Vb''] [''Vd''] [] False None AArch64Instruction_parse),
      (''vzip1'', pattern_class ''vzip1'' ''zip1 <Vd>.<dt0>, <Va>.<dt1>, <Vb>.<dt2>''
         [''Va'', ''Vb''] [''Vd''] [] False None AArch64Instruction_parse),
      (''vzip2'', pattern_class ''vzip2'' ''zip2 <Vd>.<dt0>, <Va>.<dt1>, <Vb>.<dt2>''
         [''Va'', ''Vb''] [''Vd''] [] False None AArch64Instruction_parse),
      (''vuzp1'', pattern_class ''vuzp1'' ''uzp1 <Vd>.<dt0>, <Va>.<dt1>, <Vb>.<dt2>''
         [''Va'', ''Vb''] [''Vd''] [] False None AArch64Instruction_parse),
      (''vuzp2'', pattern_class ''vuzp2'' ''uzp2 <Vd>.<dt0>, <Va>.<dt1>, <Vb>.<dt2>''
         [''Va'', ''Vb''] [''Vd''] [] False None AArch64Instruction_parse),
      (''vqrdmulh'', pattern_class ''vqrdmulh'' ''sqrdmulh <Vd>.<dt0>, <Va>.<dt1>, <Vb>.<dt2>''
         [''Va'', ''Vb''] [''Vd''] [] False None AArch64Instruction_parse),
      (''vqrdmulh_lane'', pattern_class ''vqrdmulh_lane'' ''sqrdmulh <Vd>.<dt0>, <Va>.<dt1>, <Vb>.<dt2>[<index>]''
         [''Va'', ''Vb''] [''Vd''] [] False None lane_parse),
      (''vqdmulh_lane'', pattern_class ''vqdmulh_lane'' ''sqdmulh <Vd>.<dt0>, <Va>.<dt1>, <Vb>.<dt2>[<index>]''
         [''Va'', ''Vb''] [''Vd''] [] False None lane_parse),
      (''vmul_lane'', pattern_class ''vmul_lane'' ''mul <Vd>.<dt0>, <Va>.<dt1>, <Vb>.<dt2>[<index>]''
         [''Va'', ''Vb''] [''Vd''] [] False None lane_parse),
      (''mov_d01'', pattern_class ''mov_d01'' ''mov_d01 <Vd>, <Va>''
         [''Va''] [] [''Vd''] False None AArch64Instruction_parse),
      (''mov_b00'', pattern_class ''mov_b00'' ''mov_b00 <Vd>, <Va>''
         [''Va''] [] [''Vd''] False None AArch64Instruction_parse),
      (''vmul'', pattern_class ''vmul'' ''mul <Vd>.<dt0>, <Va>.<dt1>, <Vb>.<dt2>''
         [''Va'', ''Vb''] [''Vd''] [] False None AArch64Instruction_parse),
      (''vmla'', pattern_class ''vmla'' ''mla <Vd>.<dt0>, <Va>.<dt1>, <Vb>.<dt2>''
         [''Va'', ''Vb''] [] [''Vd''] False None AArch64Instruction_parse),
      (''vmla_lane'', pattern_class ''vmla_lane'' ''mla <Vd>.<dt0>, <Va>.<dt1>, <Vb>.<dt2>[<index>]''
         [''Va'', ''Vb''] [] [''Vd''] False None lane_parse),
      (''vmls'', pattern_class ''vmls'' ''mls <Vd>.<dt0>, <Va>.<dt1>, <Vb>.<dt2>''
         [''Va'', ''Vb''] [] [''Vd''] False None AArch64Instruction_parse),
      (''vmls_lane'', pattern_class ''vmls_lane'' ''mls <Vd>.<dt0>, <Va>.<dt1>, <Vb>.<dt2>[<index>]''
         [''Va'', ''Vb''] [] [''Vd''] False None lane_parse),
      (''vmull'', pattern_class ''vmull'' ''umull <Vd>.<dt0>, <Va>.<dt1>, <Vb>.<dt2>''
         [''Va'', ''Vb''] [''Vd''] [] False None AArch64Instruction_parse),
      (''vmlal'', pattern_class ''vmlal'' ''umlal <Vd>.<dt0>, <Va>.<dt1>, <Vb>.<dt2>''
         [''Va'', ''Vb''] [] [''Vd''] False None AArch64Instruction_parse),
      (''vsrshr'', pattern_class ''vsrshr'' ''srshr <Vd>.<dt0>, <Va>.<dt1>, <imm>''
         [''Va''] [''Vd''] [] False None AArch64Instruction_parse),
      (''vshl'', pattern_class ''vshl'' ''shl <Vd>.<dt0>, <Va>.<dt1>, <imm>''
         [''Va''] [''Vd''] [] False None AArch64Instruction_parse),
      (''vushr'', pattern_class ''vushr'' ''ushr <Vd>.<dt0>, <Va>.<dt1>, <imm>''
         [''Va''] [''Vd''] [] False None AArch64Instruction_parse),
      (''vusra'', pattern_class ''vusra'' ''usra <Vd>.<dt0>, <Va>.<dt1>, <imm>''
         [''Va''] [] [''Vd''] False None AArch64Instruction_parse),
      (''trn1'', pattern_class ''trn1'' ''trn1 <Vd>.<dt0>, <Va>.<dt1>, <Vb>.<dt2>''
         [''Va'', ''Vb''] [''Vd''] [] False None AArch64Instruction_parse),
      (''trn2'', pattern_class ''trn2'' ''trn2 <Vd>.<dt0>, <Va>.<dt1>, <Vb>.<dt2>''
         [''Va'', ''Vb''] [''Vd''] [] False None AArch64Instruction_parse),
      (''ldr_idx_wform'', pattern_class ''ldr_idx_wform'' ''ldr <Wd>, [<Xa>, <Wb>, <imm>]''
         [''Xa'', ''Wb''] [''Wd''] [] False (Some ''sp'') AArch64Instruction_parse)]"

text \<open>
  \<^verbatim>\<open>Instruction.parser(src)\<close>, as a loop over the classes still to try: \<open>insts\<close> is the
  list it has gathered so far. Only \<^verbatim>\<open>ParsingException\<close> is caught.
\<close>

definition could_not_parse :: "string \<Rightarrow> error" where
  "could_not_parse src = ParsingException (''Couldn'' @ [CHR 0x27] @ ''t parse '' @ src @ [CHR 0x0A]
     @ ''You may need to add support for a new instruction (variant)?'')"

fun try_parsers :: "(string \<Rightarrow> error + inst) list \<Rightarrow> string \<Rightarrow> inst list \<Rightarrow> error + inst list" where
  "try_parsers [] src insts = (if insts = [] then Inl (could_not_parse src) else Inr insts)"
| "try_parsers (parse # rest) src insts =
     (case parse src of
        Inr i \<Rightarrow> try_parsers rest src (insts @ [i])
      | Inl (ParsingException msg) \<Rightarrow> try_parsers rest src insts
      | Inl e \<Rightarrow> Inl e)"

definition Instruction_parser :: "(string \<Rightarrow> error + string) \<Rightarrow> string \<Rightarrow> error + inst list" where
  "Instruction_parser simplify src =
     try_parsers (map snd (Instruction_subclasses simplify @ AArch64Instruction_subclasses)) src []"

text \<open>
  What the classes make of a line, one result for each class: the instructions of those that
  parse it, and the exceptions that \<^verbatim>\<open>parser\<close> does not catch.
\<close>

definition parsed :: "(error + inst) list \<Rightarrow> inst list" where
  "parsed results = List.map_filter (\<lambda>r. case r of Inr i \<Rightarrow> Some i | Inl e \<Rightarrow> None) results"

definition uncaught :: "(error + inst) list \<Rightarrow> error list" where
  "uncaught results = List.map_filter
     (\<lambda>r. case r of Inr i \<Rightarrow> None | Inl (ParsingException msg) \<Rightarrow> None | Inl e \<Rightarrow> Some e) results"

section \<open>The heuristic driver (\<^verbatim>\<open>slothy/heuristics.py\<close>)\<close>

subsection \<open>Configuration, results and solver objects\<close>

text \<open>
  The classes \<^verbatim>\<open>Config\<close>, \<^verbatim>\<open>Result\<close> and \<^verbatim>\<open>SlothyBase\<close> live in \<^verbatim>\<open>slothy.core\<close>; the
  driver reads and writes the attributes below. Stall counts are Python integers, a set of
  register names is a set of texts, a fraction of a body is a rational number.
\<close>

record Constraints =
  stalls_allowed :: int
  stalls_minimum_attempt :: int
  stalls_first_attempt :: int
  stalls_maximum_attempt :: int
  stalls_precision :: int
  stalls_timeout_below_precision :: "int option"
  allow_reordering :: bool
  allow_renaming :: bool

record Hints =
  ext_bsearch_remember_successes :: bool
  rename_hint_orig_rename :: bool
  order_hint_orig_order :: bool

record SoftwarePipelining =
  enabled :: bool
  unroll :: int
  halving_heuristic :: bool
  halving_heuristic_periodic :: bool
  optimize_preamble :: bool
  optimize_postamble :: bool
  minimize_overlapping :: bool
  allow_pre :: bool
  allow_post :: bool

record Config =
  constraints :: Constraints
  hints :: Hints
  sw_pipelining :: SoftwarePipelining
  timeout :: "int option"
  variable_size :: bool
  ignore_objective :: bool
  inputs_are_outputs :: bool
  outputs :: "string set"
  split_heuristic :: bool
  split_heuristic_region :: "rat list"

record Result =
  code :: "string list"
  stalls :: int
  preamble :: "string list"
  postamble :: "string list"
  num_exceptional_iterations :: nat
  kernel_input_output :: "string set"

text \<open>A piece of assembly is handed around as one text or as a list of lines.\<close>

datatype source = Text string | Lines "string list"

text \<open>Keyword arguments (\<^verbatim>\<open>**kwargs\<close>), in the order they were given.\<close>

datatype kwval = KBool bool | KInt int

type_synonym kwargs = "(string \<times> kwval) list"

definition truthy :: "kwval \<Rightarrow> bool" where
  "truthy v = (case v of KBool b \<Rightarrow> b | KInt n \<Rightarrow> n \<noteq> 0)"

text \<open>
  A solver object: \<^verbatim>\<open>core.config\<close>, \<^verbatim>\<open>core.result\<close>, and what it was last asked to optimize
  (\<^verbatim>\<open>core.retry()\<close> takes no argument).
\<close>

record SlothyBase =
  config :: Config
  result :: Result
  last_source :: source
  last_kwargs :: kwargs

text \<open>
  What the driver calls and this file does not define. The solver and the dataflow graph
  may raise. They read the configuration they are given and leave it as it is;
  \<^verbatim>\<open>conf.copy()\<close> is a deep copy, so a copy is a value of its own.

  \<^item> \<open>optimize c src kw\<close>: \<^verbatim>\<open>SlothyBase(..., config=c).optimize(src, **kw)\<close>, the success flag
    and \<^verbatim>\<open>core.result\<close>;
  \<^item> \<open>retry core\<close>: \<^verbatim>\<open>core.retry()\<close>;
  \<^item> \<open>binary_search try minimum start threshold precision timeout_below_precision\<close>:
    \<^verbatim>\<open>slothy.helper.binary_search\<close>; \<open>try\<close> is the closure \<^verbatim>\<open>try_with_stalls\<close>, which carries
    its variable \<^verbatim>\<open>last_successful\<close> as a state;
  \<^item> \<open>has_objective c\<close>: the attribute \<^verbatim>\<open>c.has_objective\<close>;
  \<^item> \<open>conf_log c\<close>: the lines \<^verbatim>\<open>c.log(fun)\<close> hands to \<^verbatim>\<open>fun\<close>;
  \<^item> \<open>dfg_inputs c src\<close>, \<open>dfg_outputs c src\<close>: \<^verbatim>\<open>DFG(src, ..., DFGConfig(c)).inputs\<close> and
    \<^verbatim>\<open>.outputs\<close>, where \<open>c\<close> has the attributes that were assigned to the \<^verbatim>\<open>DFGConfig\<close>;
  \<^item> \<open>reduce_source src\<close>: \<^verbatim>\<open>AsmHelper.reduce_source\<close>;
  \<^item> \<open>round_times f n\<close>: \<^verbatim>\<open>round(f * n)\<close> in floating-point arithmetic;
  \<^item> \<open>split_inner body c visualize_stalls\<close>: \<^verbatim>\<open>Heuristics._split_inner\<close>, which works with
    floating-point chunk bounds and random choices; it gives its result and the state in
    which it leaves the configuration object it was handed.
\<close>

type_synonym try_fun =
  "int \<Rightarrow> int option \<Rightarrow> source option \<Rightarrow> (error + bool \<times> SlothyBase) \<times> source option"

record env =
  optimize :: "Config \<Rightarrow> source \<Rightarrow> kwargs \<Rightarrow> error + bool \<times> Result"
  retry :: "SlothyBase \<Rightarrow> error + bool \<times> Result"
  binary_search :: "try_fun \<Rightarrow> int \<Rightarrow> int \<Rightarrow> int \<Rightarrow> int \<Rightarrow> int option
     \<Rightarrow> error + int \<times> SlothyBase"
  has_objective :: "Config \<Rightarrow> bool"
  conf_log :: "Config \<Rightarrow> string list"
  dfg_inputs :: "Config \<Rightarrow> source \<Rightarrow> error + string set"
  dfg_outputs :: "Config \<Rightarrow> source \<Rightarrow> error + string set"
  reduce_source :: "source \<Rightarrow> string list"
  round_times :: "rat \<Rightarrow> nat \<Rightarrow> int"
  split_inner :: "string list \<Rightarrow> Config \<Rightarrow> bool \<Rightarrow> (error + string list) \<times> Config"

subsection \<open>\<^verbatim>\<open>Heuristics._dump\<close> and the report of a failed search\<close>

text \<open>
  What a function does to the outside, as far as the claims ask: a line written at level
  \<^verbatim>\<open>error\<close>, or a file written.
\<close>

datatype effect = LogError string | FileWrite string string

text \<open>\<^verbatim>\<open>str.strip()\<close>.\<close>

definition strip :: "string \<Rightarrow> string" where
  "strip s = rev (dropWhile is_space (rev (dropWhile is_space s)))"

definition source_lines :: "source \<Rightarrow> string list" where
  "source_lines s = (case s of Text t \<Rightarrow> splitlines t | Lines ls \<Rightarrow> ls)"

text \<open>\<^verbatim>\<open>Heuristics._dump(name, s, logger, err=True, no_comments=...)\<close>.\<close>

definition dump_err :: "string \<Rightarrow> source \<Rightarrow> bool \<Rightarrow> effect list" where
  "dump_err name s no_comments =
     LogError (''Dump: '' @ name) #
     map (\<lambda>l. LogError (''> '' @ l))
       (if no_comments then map (\<lambda>l. strip (strip_comment l)) (source_lines s)
        else source_lines s)"

subsection \<open>The binary search for the least number of stalls\<close>

text \<open>The closure \<^verbatim>\<open>try_with_stalls\<close> of \<^verbatim>\<open>optimize_binsearch_core\<close>.\<close>

definition try_with_stalls :: "env \<Rightarrow> source \<Rightarrow> Config \<Rightarrow> kwargs \<Rightarrow> try_fun" where
  "try_with_stalls e src conf kw stalls_now timeout_now last_successful =
     (let c0 = conf\<lparr>constraints := (constraints conf)\<lparr>stalls_allowed := stalls_now\<rparr>\<rparr>;
          c1 = (if ext_bsearch_remember_successes (hints c0)
                then c0\<lparr>hints := (hints c0)\<lparr>rename_hint_orig_rename := True,
                                               order_hint_orig_order := True\<rparr>\<rparr>
                else c0);
          c = (case timeout_now of None \<Rightarrow> c1 | Some t \<Rightarrow> c1\<lparr>timeout := Some t\<rparr>);
          s = (case last_successful of Some l \<Rightarrow> l | None \<Rightarrow> src)
      in case optimize e c s kw of
           Inl err \<Rightarrow> (Inl err, last_successful)
         | Inr (success, r) \<Rightarrow>
             (Inr (success, \<lparr>config = c, result = r, last_source = s, last_kwargs = kw\<rparr>),
              if success \<and> ext_bsearch_remember_successes (hints c) then Some (Lines (code r))
              else last_successful))"

text \<open>
  The handler of \<^verbatim>\<open>BinarySearchLimitException\<close>: five pieces of log, then
  \<^verbatim>\<open>err_file = self.config.log_dir + ...\<close>. The function has no parameter \<^verbatim>\<open>self\<close> and the
  module no global of that name, so the line raises \<^verbatim>\<open>NameError\<close>; the statements after it,
  which open and write the file, are not reached.
\<close>

definition search_exhausted :: "env \<Rightarrow> source \<Rightarrow> Config \<Rightarrow> error \<times> effect list" where
  "search_exhausted e src conf =
     (NameError ''self'',
      [LogError ''Exceeded stall limit without finding a working solution'',
       LogError (''Here'' @ [CHR 0x27] @ ''s what you asked me to optimize:'')]
      @ dump_err ''Original source code'' src True
      @ [LogError ''Configuration'']
      @ map LogError (conf_log e conf))"

text \<open>
  \<^verbatim>\<open>Heuristics.optimize_binsearch_core\<close>: its value or exception, what it wrote at level
  \<^verbatim>\<open>error\<close> and to files, and the configuration object it was handed, after the call.
\<close>

definition optimize_binsearch_core ::
  "env \<Rightarrow> source \<Rightarrow> Config \<Rightarrow> kwargs \<Rightarrow> (error + int \<times> SlothyBase) \<times> effect list \<times> Config" where
  "optimize_binsearch_core e src conf kw =
     (case binary_search e (try_with_stalls e src conf kw)
             (stalls_minimum_attempt (constraints conf) - 1)
             (stalls_first_attempt (constraints conf))
             (stalls_maximum_attempt (constraints conf))
             (stalls_precision (constraints conf))
             (stalls_timeout_below_precision (constraints conf)) of
        Inr r \<Rightarrow> (Inr r, [], conf)
      | Inl BinarySearchLimitException \<Rightarrow>
          (Inl (fst (search_exhausted e src conf)), snd (search_exhausted e src conf), conf)
      | Inl err \<Rightarrow> (Inl err, [], conf))"

text \<open>
  \<^verbatim>\<open>Heuristics.optimize_binsearch_external\<close>. With \<^verbatim>\<open>flexible=False\<close> the solver gets the
  caller's configuration itself.
\<close>

definition optimize_binsearch_external ::
  "env \<Rightarrow> source \<Rightarrow> Config \<Rightarrow> bool \<Rightarrow> kwargs \<Rightarrow> (error + Result) \<times> Config" where
  "optimize_binsearch_external e src conf flexible kw =
     (if \<not> flexible then
        (case optimize e conf src [] of
           Inl err \<Rightarrow> (Inl err, conf)
         | Inr (success, r) \<Rightarrow>
             if \<not> success then (Inl (Exception ''Optimization failed''), conf) else (Inr r, conf))
      else
        (let c = conf\<lparr>ignore_objective := True\<rparr>
         in case fst (optimize_binsearch_core e src c kw) of
              Inl err \<Rightarrow> (Inl err, conf)
            | Inr (min_stalls, core) \<Rightarrow>
                if \<not> has_objective e conf then (Inr (result core), conf)
                else
                  (let first_result = result core;
                       core' = core\<lparr>config := (config core)\<lparr>ignore_objective := False\<rparr>\<rparr>
                   in case retry e core' of
                        Inl err \<Rightarrow> (Inl err, conf)
                      | Inr (success, r) \<Rightarrow>
                          if \<not> success then (Inr first_result, conf) else (Inr r, conf))))"

text \<open>
  The loop of \<^verbatim>\<open>optimize_binsearch_internal\<close>: try with \<open>cur_attempt\<close> stalls, double on
  failure, give up beyond \<^verbatim>\<open>stalls_maximum_attempt\<close>. It returns the solver object of the
  attempt that succeeded.
\<close>

function internal_attempts :: "env \<Rightarrow> source \<Rightarrow> Config \<Rightarrow> kwargs \<Rightarrow> int \<Rightarrow> error + SlothyBase" where
  "internal_attempts e src conf kw cur_attempt =
     (let c = conf\<lparr>variable_size := True,
                    constraints := (constraints conf)\<lparr>stalls_allowed := cur_attempt\<rparr>\<rparr>
      in case optimize e c src kw of
           Inl err \<Rightarrow> Inl err
         | Inr sr \<Rightarrow>
             if fst sr then Inr \<lparr>config = c, result = snd sr, last_source = src, last_kwargs = kw\<rparr>
             else if max 1 (cur_attempt * 2) > stalls_maximum_attempt (constraints conf)
                  then Inl (Exception ''No solution found'')
                  else internal_attempts e src conf kw (max 1 (cur_attempt * 2)))"
  by pat_completeness auto
termination
  by (relation "measure (\<lambda>(e, src, conf, kw, cur_attempt).
        nat (stalls_maximum_attempt (constraints conf) - cur_attempt))") auto

declare internal_attempts.simps [simp del]

text \<open>\<^verbatim>\<open>Heuristics.optimize_binsearch_internal\<close>.\<close>

definition optimize_binsearch_internal ::
  "env \<Rightarrow> source \<Rightarrow> Config \<Rightarrow> kwargs \<Rightarrow> (error + Result) \<times> Config" where
  "optimize_binsearch_internal e src conf kw =
     (case internal_attempts e src conf kw (stalls_first_attempt (constraints conf)) of
        Inl err \<Rightarrow> (Inl err, conf)
      | Inr core \<Rightarrow>
          (let min_stalls = stalls (result core)
           in if \<not> has_objective e conf then (Inr (result core), conf)
              else
                (let first_result = result core;
                     c = conf\<lparr>variable_size := False,
                              constraints := (constraints conf)\<lparr>stalls_allowed := min_stalls\<rparr>\<rparr>
                 in if ''retry'' \<in> fst ` set kw then (Inl TypeError, conf)
                    else case optimize e c src ((''retry'', KBool True) # kw) of
                           Inl err \<Rightarrow> (Inl err, conf)
                         | Inr (success, r) \<Rightarrow>
                             if \<not> success then (Inr first_result, conf) else (Inr r, conf))))"

text \<open>
  \<^verbatim>\<open>Heuristics.optimize_binsearch\<close>. \<^verbatim>\<open>flexible\<close> is a parameter of
  \<^verbatim>\<open>optimize_binsearch_external\<close> with the default \<^verbatim>\<open>True\<close>; the other keyword arguments go
  on to the solver.
\<close>

definition optimize_binsearch :: "env \<Rightarrow> source \<Rightarrow> Config \<Rightarrow> kwargs \<Rightarrow> (error + Result) \<times> Config" where
  "optimize_binsearch e src conf kw =
     (if variable_size conf then optimize_binsearch_internal e src conf kw
      else optimize_binsearch_external e src conf
             (case map_of kw ''flexible'' of None \<Rightarrow> True | Some v \<Rightarrow> truthy v)
             (filter (\<lambda>kv. fst kv \<noteq> ''flexible'') kw))"

subsection \<open>The linear heuristic and the splitting heuristic\<close>

text \<open>A slice bound of Python on a list of length \<open>n\<close>: a negative bound counts from the end.\<close>

definition slice_bound :: "nat \<Rightarrow> int \<Rightarrow> nat" where
  "slice_bound n i = (if i < 0 then nat (max 0 (int n + i)) else min n (nat i))"

text \<open>\<^verbatim>\<open>Heuristics._idxs_from_fractions\<close>.\<close>

definition idxs_from_fractions :: "env \<Rightarrow> rat list \<Rightarrow> string list \<Rightarrow> int list" where
  "idxs_from_fractions e fraction_lst body = map (\<lambda>f. round_times e f (length body)) fraction_lst"

text \<open>
  \<^verbatim>\<open>Heuristics._split\<close>. It works on \<^verbatim>\<open>c = conf.copy()\<close> from its first line on, and hands
  \<open>c\<close> to \<^verbatim>\<open>_split_inner\<close>.
\<close>

definition split_body :: "env \<Rightarrow> source \<Rightarrow> Config \<Rightarrow> bool \<Rightarrow> (error + string list) \<times> Config" where
  "split_body e body0 conf visualize_stalls =
     (let c = conf;
          body = reduce_source e body0
      in if split_heuristic_region c = [0, 1]
         then (fst (split_inner e body c visualize_stalls), conf)
         else
           (case idxs_from_fractions e (split_heuristic_region c) body of
              start_idx # end_idx # _ \<Rightarrow>
                (let s = slice_bound (length body) start_idx;
                     t = slice_bound (length body) end_idx;
                     pre = take s body;
                     cur = drop s (take t body);
                     post = drop t body
                 in case dfg_inputs e c (Lines post) of
                      Inl err \<Rightarrow> (Inl err, conf)
                    | Inr ins \<Rightarrow>
                        (let c' = c\<lparr>outputs := ins, inputs_are_outputs := False\<rparr>
                         in case fst (split_inner e cur c' visualize_stalls) of
                              Inl err \<Rightarrow> (Inl err, conf)
                            | Inr cur' \<Rightarrow> (Inr (pre @ cur' @ post), conf)))
            | _ \<Rightarrow> (Inl IndexError, conf)))"

text \<open>\<^verbatim>\<open>Heuristics.linear\<close>.\<close>

definition linear_body :: "env \<Rightarrow> source \<Rightarrow> Config \<Rightarrow> bool \<Rightarrow> (error + string list) \<times> Config" where
  "linear_body e body conf visualize_stalls =
     (if enabled (sw_pipelining conf)
      then (Inl (Exception ''Linear heuristic should only be called with SW pipelining disabled''),
            conf)
      else if \<not> split_heuristic conf
      then (case optimize_binsearch e body conf [] of
              (Inl err, conf') \<Rightarrow> (Inl err, conf')
            | (Inr r, conf') \<Rightarrow> (Inr (code r), conf'))
      else split_body e body conf visualize_stalls)"

subsection \<open>Loops: \<^verbatim>\<open>periodic\<close> and the halving heuristic\<close>

text \<open>
  \<^verbatim>\<open>Heuristics._periodic_halving\<close>. Each of its configurations is a copy of \<open>conf\<close>; so are
  the three given to the dataflow graph.
\<close>

definition periodic_halving ::
  "env \<Rightarrow> source \<Rightarrow> Config \<Rightarrow> (error + string list \<times> string list \<times> string list \<times> nat) \<times> Config" where
  "periodic_halving e body conf =
     (if \<not> enabled (sw_pipelining conf) \<or> \<not> halving_heuristic (sw_pipelining conf)
      then (Inl AssertionError, conf)
      else case dfg_inputs e conf body of
        Inl err \<Rightarrow> (Inl err, conf)
      | Inr kernel_deps \<Rightarrow>
      (let c = conf\<lparr>sw_pipelining := (sw_pipelining conf)\<lparr>enabled := False\<rparr>,
                    inputs_are_outputs := True,
                    outputs := outputs conf \<union> kernel_deps\<rparr>
       in case fst (linear_body e body c False) of
        Inl err \<Rightarrow> (Inl err, conf)
      | Inr kernel0 \<Rightarrow>
      (let kernel1 = reduce_source e (Lines kernel0);
           kernel_lenh = length kernel1 div 2;
           kernel_low = take kernel_lenh kernel1;
           kernel_high = drop kernel_lenh kernel1;
           kernel = kernel_high @ kernel_low
       in case dfg_inputs e (conf\<lparr>outputs := kernel_deps, inputs_are_outputs := False\<rparr>)
                 (Lines kernel_high) of
        Inl err \<Rightarrow> (Inl err, conf)
      | Inr _ \<Rightarrow>
      (case dfg_inputs e (conf\<lparr>inputs_are_outputs := True\<rparr>) (Lines kernel) of
        Inl err \<Rightarrow> (Inl err, conf)
      | Inr kernel_deps' \<Rightarrow>
      (if halving_heuristic_periodic (sw_pipelining conf)
       then
         (let c = conf\<lparr>inputs_are_outputs := True,
                       sw_pipelining := (sw_pipelining conf)\<lparr>minimize_overlapping := False,
                          enabled := True, allow_pre := False, allow_post := False\<rparr>\<rparr>
          in case fst (optimize_binsearch e (Lines kernel) c []) of
               Inl err \<Rightarrow> (Inl err, conf)
             | Inr r \<Rightarrow> (Inr (kernel_low, code r, kernel_high, 1), conf))
       else
         (let c = conf\<lparr>outputs := kernel_deps',
                       sw_pipelining := (sw_pipelining conf)\<lparr>enabled := False\<rparr>\<rparr>
          in case fst (linear_body e (Lines kernel) c True) of
               Inl err \<Rightarrow> (Inl err, conf)
             | Inr kernel' \<Rightarrow> (Inr (kernel_low, kernel', kernel_high, 1), conf)))))))"





subsection \<open>An environment to run the driver in\<close>

text \<open>
  A solver, a search and a dataflow graph that are simple enough to evaluate, for the
  instances of the theorems below. The solver finds a schedule when at least two stalls are
  allowed and it is not asked for a re-optimization (\<^verbatim>\<open>retry\<close>); its schedule is the source
  in reverse order. The search tries the first attempt and then the stall limit. A
  configuration has an objective when \<^verbatim>\<open>minimize_overlapping\<close> is set.
\<close>

definition reversing_solver :: "Config \<Rightarrow> source \<Rightarrow> kwargs \<Rightarrow> error + bool \<times> Result" where
  "reversing_solver c src kw =
     Inr (2 \<le> stalls_allowed (constraints c) \<and> map_of kw ''retry'' = None,
          \<lparr>code = rev (source_lines src), stalls = stalls_allowed (constraints c),
           preamble = [], postamble = [], num_exceptional_iterations = 0,
           kernel_input_output = {}\<rparr>)"

definition two_step_search ::
  "try_fun \<Rightarrow> int \<Rightarrow> int \<Rightarrow> int \<Rightarrow> int \<Rightarrow> int option \<Rightarrow> error + int \<times> SlothyBase" where
  "two_step_search try minimum start threshold precision timeout_below_precision =
     (case try start None None of
        (Inl err, st) \<Rightarrow> Inl err
      | (Inr (ok, core), st) \<Rightarrow>
          if ok then Inr (start, core)
          else (case try threshold None st of
                  (Inl err, st') \<Rightarrow> Inl err
                | (Inr (ok', core'), st') \<Rightarrow>
                    if ok' then Inr (threshold, core') else Inl BinarySearchLimitException))"

definition test_env :: env where
  "test_env = \<lparr>
     optimize = reversing_solver,
     retry = (\<lambda>core. Inr (False, result core)),
     binary_search = two_step_search,
     has_objective = (\<lambda>c. minimize_overlapping (sw_pipelining c)),
     conf_log = (\<lambda>c. [''variable_size: '' @ (if variable_size c then ''True'' else ''False'')]),
     dfg_inputs = (\<lambda>c src. Inr {''x1''}),
     dfg_outputs = (\<lambda>c src. Inr {''x0''}),
     reduce_source = source_lines,
     round_times = (\<lambda>f n. 0),
     split_inner = (\<lambda>body c visualize_stalls. (Inr body, c)) \<rparr>"

definition test_conf :: Config where
  "test_conf = \<lparr>
     constraints = \<lparr>stalls_allowed = 0, stalls_minimum_attempt = 0, stalls_first_attempt = 0,
       stalls_maximum_attempt = 4, stalls_precision = 0, stalls_timeout_below_precision = None,
       allow_reordering = True, allow_renaming = True\<rparr>,
     hints = \<lparr>ext_bsearch_remember_successes = False, rename_hint_orig_rename = False,
       order_hint_orig_order = False\<rparr>,
     sw_pipelining = \<lparr>enabled = False, unroll = 1, halving_heuristic = False,
       halving_heuristic_periodic = False, optimize_preamble = True, optimize_postamble = True,
       minimize_overlapping = True, allow_pre = True, allow_post = True\<rparr>,
     timeout = None, variable_size = False, ignore_objective = False,
     inputs_are_outputs = False, outputs = {}, split_heuristic = False,
     split_heuristic_region = [0, 1] \<rparr>"

section \<open>The loop that \<^verbatim>\<open>Loop.extract\<close> returns\<close>

text \<open>
  A greedy repetition that succeeds has taken some number of characters in its bounds. A
  group that an expression does not name keeps its text through a match of the expression.
  So the \<^verbatim>\<open>label\<close> group of a line is a run of word characters, not empty; for any other
  label no line carries the label, and no loop is found.
\<close>

lemma backtrack_Some:
  "backtrack lo n s k = Some r \<Longrightarrow> \<exists>m. lo \<le> m \<and> m \<le> n \<and> k (drop m s) = Some r"
proof (induction n)
  case 0
  then show ?case by (auto split: if_splits)
next
  case (Suc n)
  show ?case
  proof (cases "k (drop (Suc n) s)")
    case None
    with Suc.prems have "backtrack lo n s k = Some r" by (auto split: if_splits)
    from Suc.IH[OF this] show ?thesis by (meson le_SucI)
  next
    case (Some a)
    with Suc.prems have "Suc n \<ge> lo \<and> k (drop (Suc n) s) = Some r" by (auto split: if_splits)
    then show ?thesis by blast
  qed
qed

lemma take_takeWhile_all:
  "m \<le> length (takeWhile P s) \<Longrightarrow> list_all P (take m s)"
proof (induction s arbitrary: m)
  case Nil
  then show ?case by simp
next
  case (Cons a s)
  then show ?case by (cases m) (auto split: if_splits)
qed

lemma rmatch_keeps:
  "n \<notin> group_names r \<Longrightarrow> keeps n k \<Longrightarrow> keeps n (\<lambda>s g. rmatch r s g k)"
proof (induction r arbitrary: k)
  case Eps
  then show ?case by simp
next
  case (One cs)
  then show ?case by (auto simp: keeps_def split: list.splits if_splits)
next
  case (Str t)
  then show ?case by (auto simp: keeps_def split: if_splits)
next
  case (Seq a b)
  then show ?case by simp
next
  case (Alt a b)
  then have "keeps n (\<lambda>s g. rmatch a s g k)" "keeps n (\<lambda>s g. rmatch b s g k)" by simp_all
  then show ?case by (auto simp: keeps_def split: option.splits)
next
  case (Opt a)
  then have "keeps n (\<lambda>s g. rmatch a s g k)" by simp
  with Opt.prems(2) show ?case by (auto simp: keeps_def split: option.splits)
next
  case (Star cs)
  then show ?case by (auto simp: keeps_def dest!: backtrack_Some)
next
  case (Plus cs)
  then show ?case by (auto simp: keeps_def dest!: backtrack_Some)
next
  case (Grp m a)
  show ?case unfolding keeps_def
  proof (intro allI impI)
    fix s g r
    assume r: "rmatch (Grp m a) s g k = Some r"
    have "keeps n (\<lambda>s' g'. k s' ((m, take (length s - length s') s) # g'))"
      using Grp.prems by (auto simp: keeps_def)
    with Grp.IH[of "\<lambda>s' g'. k s' ((m, take (length s - length s') s) # g')"] Grp.prems(1)
    have "keeps n (\<lambda>s0 g0. rmatch a s0 g0 (\<lambda>s' g'. k s' ((m, take (length s - length s') s) # g')))"
      by simp
    with r show "map_of r n = map_of g n" by (simp add: keeps_def)
  qed
next
  case Eos
  then show ?case by (auto simp: keeps_def split: if_splits)
qed

lemma label_group_word:
  assumes "re_match loop_lbl_regexp l = Some p"
  shows "\<exists>t. group p ''label'' = Some t \<and> t \<noteq> [] \<and> list_all is_word t"
proof -
  define rest where "rest = seqs [Star [Space], Str '':'', Grp ''remainder'' (Star [AnyCh]), Eos]"
  have k: "keeps ''label'' (\<lambda>s g. rmatch rest s g (\<lambda>s' g. Some g))"
    by (rule rmatch_keeps) (simp_all add: rest_def keeps_def)
  have e: "loop_lbl_regexp = Seq (Star [Space]) (Seq (Grp ''label'' (Plus [Word])) rest)"
    by (simp add: loop_lbl_regexp_def rest_def)
  from assms have "rmatch (Seq (Star [Space]) (Seq (Grp ''label'' (Plus [Word])) rest)) l []
      (\<lambda>s' g. Some g) = Some p"
    unfolding re_match_def e .
  then have "backtrack 0 (length (takeWhile (in_cls [Space]) l)) l
     (\<lambda>s1. backtrack 1 (length (takeWhile (in_cls [Word]) s1)) s1
       (\<lambda>s2. rmatch rest s2 [(''label'', take (length s1 - length s2) s1)] (\<lambda>s' g. Some g))) = Some p"
    by simp
  then obtain s1 where "backtrack 1 (length (takeWhile (in_cls [Word]) s1)) s1
       (\<lambda>s2. rmatch rest s2 [(''label'', take (length s1 - length s2) s1)] (\<lambda>s' g. Some g)) = Some p"
    by (blast dest: backtrack_Some)
  from backtrack_Some[OF this] obtain m where m: "1 \<le> m" "m \<le> length (takeWhile (in_cls [Word]) s1)"
    and r: "rmatch rest (drop m s1) [(''label'', take (length s1 - length (drop m s1)) s1)]
              (\<lambda>s' g. Some g) = Some p"
    by blast
  from k r have g: "group p ''label'' = Some (take (length s1 - length (drop m s1)) s1)"
    by (auto simp: keeps_def group_def)
  have le: "m \<le> length s1" using m(2) length_takeWhile_le[of "in_cls [Word]" s1] by linarith
  then have t: "take (length s1 - length (drop m s1)) s1 = take m s1" by simp
  have "list_all (in_cls [Word]) (take m s1)" using m(2) by (rule take_takeWhile_all)
  then have "list_all is_word (take m s1)" by (simp add: in_cls_def list_all_iff)
  moreover have "take m s1 \<noteq> []" using m(1) le by (cases s1) auto
  ultimately show ?thesis using g t by simp
qed

lemma is_label_word: "is_label lbl l \<Longrightarrow> lbl \<noteq> [] \<and> list_all is_word lbl"
  using label_group_word[of l] by (auto simp: is_label_def split: option.splits)

lemma extract_loop_never_label:
  "\<forall>l \<in> set ls. \<not> is_label lbl l \<Longrightarrow>
   extract_loop lbl 0 ls pre body post regs = Inl (loop_not_found lbl)"
  by (induction ls arbitrary: pre) simp_all

lemma Loop_extract_other_label:
  assumes "lbl = [] \<or> \<not> list_all is_word lbl" and "label_compiles compiles lbl"
  shows "Loop_extract compiles source lbl = Inl (loop_not_found lbl)"
proof -
  from assms(1) have "\<forall>l \<in> set (splitlines source). \<not> is_label lbl l"
    using is_label_word by blast
  with assms(2) show ?thesis by (simp add: Loop_extract_def extract_loop_never_label)
qed

text \<open>
  Each state of the scan, in closed form: the lines up to the first one that the state is
  waiting for go where the state puts them, and the scan goes on after that line.
\<close>

lemma extract_loop_3:
  "extract_loop lbl 3 ls pre body post (Some r) = Inr (pre, body, post @ ls, lbl, r)"
  by (induction ls arbitrary: post) simp_all

lemma extract_loop_2:
  "extract_loop lbl 2 ls pre body post (Some r) =
     (case dropWhile (\<lambda>l. \<not> is_branch lbl l) ls of
        [] \<Rightarrow> Inl (loop_not_found lbl)
      | b # rest \<Rightarrow> Inr (pre, body @ takeWhile (\<lambda>l. \<not> is_branch lbl l) ls, post @ rest, lbl, r))"
proof (induction ls arbitrary: body)
  case Nil
  show ?case by simp
next
  case (Cons a ls)
  show ?case
  proof (cases "is_branch lbl a")
    case True
    then show ?thesis by (simp add: extract_loop_3)
  next
    case False
    then show ?thesis by (simp add: Cons.IH cong: list.case_cong)
  qed
qed

lemma extract_loop_1:
  "extract_loop lbl (Suc 0) ls pre body post regs =
     (case dropWhile (\<lambda>l. \<not> is_subs l) ls of
        [] \<Rightarrow> Inl (loop_not_found lbl)
      | s # rest \<Rightarrow>
          extract_loop lbl 2 rest pre (body @ takeWhile (\<lambda>l. \<not> is_subs l) ls) post
            (Some (subs_groups s)))"
proof (induction ls arbitrary: body)
  case Nil
  show ?case by simp
next
  case (Cons a ls)
  show ?case
  proof (cases "is_subs a")
    case True
    then show ?thesis by simp
  next
    case False
    then show ?thesis by (simp add: Cons.IH cong: list.case_cong)
  qed
qed

lemma extract_loop_0:
  "extract_loop lbl 0 ls pre body post regs =
     (case dropWhile (\<lambda>l. \<not> is_label lbl l) ls of
        [] \<Rightarrow> Inl (loop_not_found lbl)
      | l # rest \<Rightarrow>
          extract_loop lbl (Suc 0) (remainder l # rest) (pre @ takeWhile (\<lambda>l. \<not> is_label lbl l) ls)
            body post regs)"
proof (induction ls arbitrary: pre)
  case Nil
  show ?case by simp
next
  case (Cons a ls)
  show ?case
  proof (cases "is_label lbl a")
    case True
    then show ?thesis by simp
  next
    case False
    then show ?thesis by (simp add: Cons.IH cong: list.case_cong)
  qed
qed

text \<open>
  Claim C2, as the code has it. Unless the label makes the branch expression a text that
  \<^verbatim>\<open>re.compile\<close> refuses, which no label of word characters does, \<^verbatim>\<open>Loop.extract\<close> finds
  the first line that carries the label, then the first line from there on that matches the
  \<^verbatim>\<open>subs\<close> expression, then the first line after it that matches the branch
  expression, and raises when one of the three is missing. \<open>pre\<close> is the lines before the
  label line. The body begins with the text that follows the colon on the label line (an
  empty text for a bare label), goes on with the lines up to the \<^verbatim>\<open>subs\<close>, and also
  takes the lines between the \<^verbatim>\<open>subs\<close> and the branch. \<open>post\<close> is the lines after
  the branch.
\<close>

theorem Loop_extract_parts:
  "Loop_extract compiles source lbl =
     (if \<not> label_compiles compiles lbl then Inl ReError
      else case dropWhile (\<lambda>l. \<not> is_label lbl l) (splitlines source) of
        [] \<Rightarrow> Inl (loop_not_found lbl)
      | l # after_label \<Rightarrow>
         (case dropWhile (\<lambda>l. \<not> is_subs l) (remainder l # after_label) of
            [] \<Rightarrow> Inl (loop_not_found lbl)
          | s # after_subs \<Rightarrow>
             (case dropWhile (\<lambda>l. \<not> is_branch lbl l) after_subs of
                [] \<Rightarrow> Inl (loop_not_found lbl)
              | b # post \<Rightarrow>
                  Inr (takeWhile (\<lambda>l. \<not> is_label lbl l) (splitlines source),
                       takeWhile (\<lambda>l. \<not> is_subs l) (remainder l # after_label)
                         @ takeWhile (\<lambda>l. \<not> is_branch lbl l) after_subs,
                       post, lbl, subs_groups s))))"
  unfolding Loop_extract_def extract_loop_0 extract_loop_1 extract_loop_2
  by (simp cong: list.case_cong)

text \<open>
  The theorem at three inputs: a loop in ASCII; a loop whose label is the letter 0xE9 of
  Latin-1, with the next-line character 0x85 as the line end after the label and a no-break
  space before \<^verbatim>\<open>subs\<close>; and a label with a parenthesis that is never closed, which
  \<^verbatim>\<open>re.compile\<close> refuses.
\<close>

theorem Loop_extract_parts_witness:
  "Loop_extract (\<lambda>t. False) (''loop: add x0, x0, x1'' @ [CHR 0x0A] @ ''  subs x2, x2, #1'' @ [CHR 0x0A]
       @ ''  cbnz x2, loop'' @ [CHR 0x0A] @ ''ret'') ''loop''
   = Inr ([], ['' add x0, x0, x1''], [''ret''], ''loop'', (''x2'', ''x2'', ''#1'')) \<and>
   Loop_extract (\<lambda>t. False) ([CHR 0xE9] @ '':'' @ [CHR 0x85] @ [CHR 0xA0] @ ''subs x2, x2, #1''
       @ [CHR 0x0A] @ ''cbnz x2, '' @ [CHR 0xE9]) [CHR 0xE9]
   = Inr ([], [[]], [], [CHR 0xE9], (''x2'', ''x2'', ''#1'')) \<and>
   Loop_extract (\<lambda>t. False) (''a(:'' @ [CHR 0x0A] @ ''subs x2, x2, #1''
       @ [CHR 0x0A] @ ''cbnz x2, a('') ''a('' = Inl ReError"
  by (subst Loop_extract_parts) code_simp

text \<open>
  Claim C2 as stated fails. With a bare label the body is not the one line between the label
  and the \<^verbatim>\<open>subs\<close>: the empty text after the colon comes first. And a line between the
  \<^verbatim>\<open>subs\<close> and the branch, which is not between the label and the pair, is in the body.
\<close>

theorem Loop_extract_body_counterexample:
  "splitlines (''start:'' @ [CHR 0x0A] @ ''add x0, x0, x1'' @ [CHR 0x0A] @ ''subs x2, x2, #1''
       @ [CHR 0x0A] @ ''cbnz x2, start'')
     = [''start:'', ''add x0, x0, x1'', ''subs x2, x2, #1'', ''cbnz x2, start''] \<and>
   Loop_extract (\<lambda>t. False) (''start:'' @ [CHR 0x0A] @ ''add x0, x0, x1'' @ [CHR 0x0A] @ ''subs x2, x2, #1''
       @ [CHR 0x0A] @ ''cbnz x2, start'') ''start''
     = Inr ([], ['''', ''add x0, x0, x1''], [], ''start'', (''x2'', ''x2'', ''#1'')) \<and>
   Loop_extract (\<lambda>t. False) (''start:'' @ [CHR 0x0A] @ ''subs x2, x2, #1'' @ [CHR 0x0A] @ ''add x0, x0, x1''
       @ [CHR 0x0A] @ ''cbnz x2, start'') ''start''
     = Inr ([], ['''', ''add x0, x0, x1''], [], ''start'', (''x2'', ''x2'', ''#1''))"
  by code_simp

section \<open>Operands of the scalar load and store\<close>

lemma ldr_str_addressing_Inr:
  assumes "ldr_str_addressing simplify self m src = Inr (d, a, i)"
  shows "\<exists>p. re_match (ldr_str_regexp m) (strip_comment src) = Some p \<and>
             d = grp_str p ''dest'' \<and> a = grp_str p ''addr''"
proof (cases "re_match (ldr_str_regexp m) (strip_comment src)")
  case None
  with assms show ?thesis by (simp add: ldr_str_addressing_def)
next
  case (Some p)
  with assms show ?thesis
    by (simp add: ldr_str_addressing_def Let_def split: sum.splits)
qed

text \<open>
  Claim C10, as the code has it. Whatever the addressing mode (offset, writeback
  \<^verbatim>\<open>!\<close>, post-index), a parsed \<^verbatim>\<open>x_str\<close> has no output and no in-out operand, and its
  inputs are the stored register and the base register; a parsed \<^verbatim>\<open>x_ldr\<close> has no in-out
  operand, its one input is the base register and its one output is the destination
  register. Nothing is added for the update of the base register. So the base register is in
  the output list exactly when the load names it as its destination too.
\<close>

theorem x_ldr_x_str_operands:
  "(x_str_parse simplify src = Inr i \<longrightarrow>
      args_out i = [] \<and> args_in_out i = [] \<and>
      (\<exists>p. re_match (ldr_str_regexp ''str'') (strip_comment src) = Some p \<and>
           args_in i = [grp_str p ''dest'', grp_str p ''addr''])) \<and>
   (x_ldr_parse simplify src = Inr i \<longrightarrow>
      args_in_out i = [] \<and>
      (\<exists>p. re_match (ldr_str_regexp ''ldr'') (strip_comment src) = Some p \<and>
           args_in i = [grp_str p ''addr''] \<and> args_out i = [grp_str p ''dest'']))"
proof (intro conjI impI)
  assume a: "x_str_parse simplify src = Inr i"
  then obtain d b j where r: "ldr_str_addressing simplify x_str_init ''str'' src = Inr (d, b, j)"
    and i: "i = j\<lparr>args_in := [d, b], args_out := [], args_in_out := []\<rparr>"
    by (auto simp: x_str_parse_def split: sum.splits)
  from i show "args_out i = []" "args_in_out i = []" by simp_all
  from ldr_str_addressing_Inr[OF r] i
  show "\<exists>p. re_match (ldr_str_regexp ''str'') (strip_comment src) = Some p \<and>
           args_in i = [grp_str p ''dest'', grp_str p ''addr'']" by auto
next
  assume a: "x_ldr_parse simplify src = Inr i"
  then obtain d b j where r: "ldr_str_addressing simplify x_ldr_init ''ldr'' src = Inr (d, b, j)"
    and i: "i = j\<lparr>args_in := [b], args_out := [d], args_in_out := []\<rparr>"
    by (auto simp: x_ldr_parse_def split: sum.splits)
  from i show "args_in_out i = []" by simp
  from ldr_str_addressing_Inr[OF r] i
  show "\<exists>p. re_match (ldr_str_regexp ''ldr'') (strip_comment src) = Some p \<and>
           args_in i = [grp_str p ''addr''] \<and> args_out i = [grp_str p ''dest'']" by auto
qed

text \<open>A load with writeback: the base register \<^verbatim>\<open>x0\<close> is an input only.\<close>

theorem x_ldr_x_str_operands_witness:
  "\<not> isl (x_ldr_parse Inr ''ldr x1, [x0, #8]!'') \<and>
   writeback (projr (x_ldr_parse Inr ''ldr x1, [x0, #8]!'')) = Some True \<and>
   args_in (projr (x_ldr_parse Inr ''ldr x1, [x0, #8]!'')) = [''x0''] \<and>
   args_out (projr (x_ldr_parse Inr ''ldr x1, [x0, #8]!'')) = [''x1''] \<and>
   args_in_out (projr (x_ldr_parse Inr ''ldr x1, [x0, #8]!'')) = []"
proof -
  define i where "i = projr (x_ldr_parse Inr ''ldr x1, [x0, #8]!'')"
  have r: "\<not> isl (x_ldr_parse Inr ''ldr x1, [x0, #8]!'')" by code_simp
  then have e: "x_ldr_parse Inr ''ldr x1, [x0, #8]!'' = Inr i"
    unfolding i_def by (cases "x_ldr_parse Inr ''ldr x1, [x0, #8]!''") simp_all
  have m: "re_match (ldr_str_regexp ''ldr'') (strip_comment ''ldr x1, [x0, #8]!'')
     = Some [(''writeback'', ''!''), (''addroffset'', ''8''), (''addr'', ''x0''), (''dest'', ''x1'')]"
    by code_simp
  have w: "writeback i = Some True" unfolding i_def by code_simp
  from x_ldr_x_str_operands[of Inr "''ldr x1, [x0, #8]!''" i] e
  obtain p where p: "re_match (ldr_str_regexp ''ldr'') (strip_comment ''ldr x1, [x0, #8]!'') = Some p"
    and a: "args_in_out i = []" "args_in i = [grp_str p ''addr'']" "args_out i = [grp_str p ''dest'']"
    by blast
  from p m have "p = [(''writeback'', ''!''), (''addroffset'', ''8''), (''addr'', ''x0''), (''dest'', ''x1'')]"
    by simp
  with a have "args_in_out i = [] \<and> args_in i = [''x0''] \<and> args_out i = [''x1'']"
    by (simp add: grp_str_def group_def)
  with r w show ?thesis unfolding i_def by simp
qed

text \<open>
  Claim C10 as stated fails: a load whose destination is its own base register, here with
  writeback, has the base register in its output list.
\<close>

theorem x_ldr_base_register_counterexample:
  "map_sum id (\<lambda>i. (addr i, writeback i, args_in i, args_out i, args_in_out i))
     (x_ldr_parse Inr ''ldr x0, [x0, #8]!'')
   = Inr (Some ''x0'', Some True, [''x0''], [''x0''], [])"
  by code_simp

section \<open>Combinations of the grouped loads and stores\<close>

lemma ld2_last_pair_match:
  "re_match ld2_regexp ''ld2 {v30.4S, v31.4S}, [x0], #32'' = Some
     [(''increment'', ''32''), (''reg'', ''x0''), (''datatype1'', ''4S''),
      (''out1'', ''v31''), (''datatype0'', ''4S''), (''out0'', ''v30''), (''1'', ''ld2'')]"
  by code_simp

lemma ld4_last_tuple_match:
  "re_match ld4_regexp ''ld4 {v28.4S, v29.4S, v30.4S, v31.4S}, [x0]'' = Some
     [(''reg'', ''x0''), (''datatype3'', ''4S''), (''out3'', ''v31''),
      (''datatype2'', ''4S''), (''out2'', ''v30''), (''datatype1'', ''4S''),
      (''out1'', ''v29''), (''datatype0'', ''4S''), (''out0'', ''v28''), (''1'', ''ld4'')]"
  by code_simp

lemma st4_last_tuple_match:
  "re_match st4_regexp ''st4 {v28.4S, v29.4S, v30.4S, v31.4S}, [x0], #64'' = Some
     [(''increment'', ''64''), (''reg'', ''x0''), (''datatype3'', ''4S''),
      (''out3'', ''v31''), (''datatype2'', ''4S''), (''out2'', ''v30''),
      (''datatype1'', ''4S''), (''out1'', ''v29''), (''datatype0'', ''4S''),
      (''out0'', ''v28''), (''1'', ''st4'')]"
  by code_simp

lemma ld2_last_pair_parse:
  "map_sum id (\<lambda>i. (args_out i, args_out_combinations i))
       (ld2_parse ''ld2 {v30.4S, v31.4S}, [x0], #32'')
     = Inr ([''v30'', ''v31''], Some [([0, 1], consecutive 2 0 30)])"
  by (simp add: ld2_parse_def ld2_last_pair_match grp_str_def group_def)

lemma ld4_last_tuple_parse:
  "map_sum id (\<lambda>i. (args_out i, args_out_combinations i))
       (ld4_parse ''ld4 {v28.4S, v29.4S, v30.4S, v31.4S}, [x0]'')
     = Inr ([''v28'', ''v29'', ''v30'', ''v31''], Some [([0, 1, 2, 3], consecutive 4 0 28)])"
  by (simp add: ld4_parse_def ld4_last_tuple_match grp_str_def group_def)

lemma st4_last_tuple_parse:
  "map_sum id (\<lambda>i. (args_in i, args_in_combinations i))
       (st4_parse ''st4 {v28.4S, v29.4S, v30.4S, v31.4S}, [x0], #64'')
     = Inr ([''x0'', ''v28'', ''v29'', ''v30'', ''v31''], Some [([1, 2, 3, 4], consecutive 4 0 28)])"
  by (simp add: st4_parse_def st4_last_tuple_match grp_str_def group_def)

lemma last_pair_not_in_30: "[''v30'', ''v31''] \<notin> set (consecutive 2 0 30)"
  by code_simp

lemma last_tuple_not_in_28: "[''v28'', ''v29'', ''v30'', ''v31''] \<notin> set (consecutive 4 0 28)"
  by code_simp

lemma last_pair_in_31: "[''v30'', ''v31''] \<in> set (consecutive 2 0 31)"
  by code_simp

lemma last_tuple_registers:
  "list_all (\<lambda>r. r \<in> set (list_registers Neon)) [''v28'', ''v29'', ''v30'', ''v31'']"
  by code_simp

text \<open>
  Claim C9 against the code. \<^verbatim>\<open>ld2 {v30.4S, v31.4S}, [x0], #32\<close> is parsed, its two
  registers are consecutive registers of the Neon pool, and the pair is not in the
  combination list of the instruction: the list of \<^verbatim>\<open>ld2\<close> ends at \<^verbatim>\<open>(v29, v30)\<close>. In the
  same way the lists of \<^verbatim>\<open>ld4\<close> and \<^verbatim>\<open>st4\<close> end at \<^verbatim>\<open>(v27, v28, v29, v30)\<close> and lack
  \<^verbatim>\<open>(v28, v29, v30, v31)\<close>. The list of \<^verbatim>\<open>stack_vld2_lane\<close> does hold \<^verbatim>\<open>(v30, v31)\<close>.
\<close>

theorem grouped_combinations_lack_last_tuple:
  "map_sum id (\<lambda>i. (args_out i, args_out_combinations i))
       (ld2_parse ''ld2 {v30.4S, v31.4S}, [x0], #32'')
     = Inr ([''v30'', ''v31''], Some [([0, 1], consecutive 2 0 30)]) \<and>
   [''v30'', ''v31''] \<notin> set (consecutive 2 0 30) \<and>
   map_sum id (\<lambda>i. (args_out i, args_out_combinations i))
       (ld4_parse ''ld4 {v28.4S, v29.4S, v30.4S, v31.4S}, [x0]'')
     = Inr ([''v28'', ''v29'', ''v30'', ''v31''], Some [([0, 1, 2, 3], consecutive 4 0 28)]) \<and>
   map_sum id (\<lambda>i. (args_in i, args_in_combinations i))
       (st4_parse ''st4 {v28.4S, v29.4S, v30.4S, v31.4S}, [x0], #64'')
     = Inr ([''x0'', ''v28'', ''v29'', ''v30'', ''v31''], Some [([1, 2, 3, 4], consecutive 4 0 28)]) \<and>
   [''v28'', ''v29'', ''v30'', ''v31''] \<notin> set (consecutive 4 0 28) \<and>
   list_all (\<lambda>r. r \<in> set (list_registers Neon)) [''v28'', ''v29'', ''v30'', ''v31''] \<and>
   [''v30'', ''v31''] \<in> set (consecutive 2 0 31)"
  using ld2_last_pair_parse ld4_last_tuple_parse st4_last_tuple_parse last_pair_not_in_30
    last_tuple_not_in_28 last_pair_in_31 last_tuple_registers
  by blast


section \<open>The pair-fusion callback of \<^verbatim>\<open>vins\<close>\<close>

text \<open>
  Claim C7. Take a \<^verbatim>\<open>vins\<close> node: its instruction carries the mark
  \<^verbatim>\<open>detected_vins_pair\<close>, and while it is not marked it has its in-out operand and the
  node has the consumers of that operand. The callback returns \<open>True\<close> exactly when the
  instruction is not marked and the operand has one consumer, a \<^verbatim>\<open>vins\<close> with the same
  in-out register, the lanes of the two being \<^verbatim>\<open>0\<close> and \<^verbatim>\<open>1\<close>. Then the in-out register
  has become the one output, the in-out list is empty and the instruction is marked.
  Otherwise the instruction is as it was.
\<close>

theorem vins_parsing_cb_changed:
  assumes "detected_vins_pair i = Some d"
    and "\<not> d \<Longrightarrow> dst_in_out t \<noteq> [] \<and> args_in_out i \<noteq> []"
  shows "case vins_parsing_cb i t of Inl e \<Rightarrow> False | Inr (changed, i') \<Rightarrow>
     (changed \<longleftrightarrow> \<not> d \<and> (\<exists>r. hd (dst_in_out t) = [r] \<and> cls r = ''vins'' \<and>
         args_in_out r = args_in_out i \<and> {lane r, lane i} = {Some ''0'', Some ''1''})) \<and>
     (changed \<longrightarrow> args_out i' = [hd (args_in_out i)] \<and> args_in_out i' = [] \<and>
         num_out i' = 1 \<and> num_in_out i' = 0 \<and> detected_vins_pair i' = Some True \<and>
         args_in i' = args_in i) \<and>
     (\<not> changed \<longrightarrow> i' = i)"
proof (cases d)
  case True
  with assms(1) have "vins_parsing_cb i t = Inr (False, i)" by (simp add: vins_parsing_cb_def)
  with True show ?thesis by simp
next
  case False
  with assms(2) obtain cs rest reg regs where
    t: "dst_in_out t = cs # rest" and a: "args_in_out i = reg # regs"
    by (cases "dst_in_out t"; cases "args_in_out i") auto
  have s: "vins_pair_successor i cs \<longleftrightarrow> (\<exists>r. cs = [r] \<and> cls r = ''vins'' \<and>
      args_in_out r = args_in_out i \<and> {lane r, lane i} = {Some ''0'', Some ''1''})"
    by (auto simp: vins_pair_successor_def split: list.splits)
  show ?thesis
  proof (cases "vins_pair_successor i cs")
    case True
    with False assms(1) t a have "vins_parsing_cb i t =
        Inr (True, i\<lparr>num_out := 1, args_out := [reg], arg_types_out := [Neon],
                       args_out_restrictions := args_in_out_restrictions i,
                       num_in_out := 0, args_in_out := [], arg_types_in_out := [],
                       args_in_out_restrictions := [], detected_vins_pair := Some True\<rparr>)"
      by (simp add: vins_parsing_cb_def)
    with True False t a s show ?thesis by simp
  next
    case no: False
    with False assms(1) t a have "vins_parsing_cb i t = Inr (False, i)"
      by (simp add: vins_parsing_cb_def)
    with no t s show ?thesis by simp
  qed
qed

text \<open>
  The theorem at \<^verbatim>\<open>vins v0, x1, 0\<close>, whose in-out register \<^verbatim>\<open>v0\<close> is consumed by
  \<^verbatim>\<open>vins v0, x2, 1\<close> alone: the callback reports a change, and \<^verbatim>\<open>v0\<close> is the output.
\<close>

theorem vins_parsing_cb_changed_witness:
  "detected_vins_pair (projr (vins_parse ''vins v0, x1, 0'')) = Some False \<and>
   dst_in_out \<lparr>dst_in_out = [[projr (vins_parse ''vins v0, x2, 1'')]]\<rparr> \<noteq> [] \<and>
   args_in_out (projr (vins_parse ''vins v0, x1, 0'')) \<noteq> [] \<and>
   map_sum id (\<lambda>(changed, i'). (changed, args_out i', args_in_out i', args_in i'))
     (vins_parsing_cb (projr (vins_parse ''vins v0, x1, 0''))
        \<lparr>dst_in_out = [[projr (vins_parse ''vins v0, x2, 1'')]]\<rparr>)
   = Inr (True, [''v0''], [], [''x1''])"
proof -
  define i where "i = projr (vins_parse ''vins v0, x1, 0'')"
  define r where "r = projr (vins_parse ''vins v0, x2, 1'')"
  define t where "t = \<lparr>dst_in_out = [[r]]\<rparr>"
  have d: "detected_vins_pair i = Some False" unfolding i_def by code_simp
  have a: "args_in_out i = [''v0'']" unfolding i_def by code_simp
  have ai: "args_in i = [''x1'']" unfolding i_def by code_simp
  have l: "lane i = Some ''0''" unfolding i_def by code_simp
  have rc: "cls r = ''vins''" unfolding r_def by code_simp
  have ra: "args_in_out r = [''v0'']" unfolding r_def by code_simp
  have rl: "lane r = Some ''1''" unfolding r_def by code_simp
  have t: "dst_in_out t = [[r]]" by (simp add: t_def)
  have s: "\<exists>r'. hd (dst_in_out t) = [r'] \<and> cls r' = ''vins'' \<and>
      args_in_out r' = args_in_out i \<and> {lane r', lane i} = {Some ''0'', Some ''1''}"
    using rc ra rl a l t by auto
  have n: "\<not> False \<Longrightarrow> dst_in_out t \<noteq> [] \<and> args_in_out i \<noteq> []"
    using a t by simp
  note c = vins_parsing_cb_changed[of i False t, OF d n]
  from c s a ai have "map_sum id (\<lambda>(changed, i'). (changed, args_out i', args_in_out i', args_in i'))
     (vins_parsing_cb i t) = Inr (True, [''v0''], [], [''x1''])"
    by (cases "vins_parsing_cb i t") auto
  with d a t show ?thesis unfolding i_def r_def t_def by simp
qed

section \<open>The configuration object across a call of the driver\<close>














section \<open>A binary search that runs out of attempts\<close>

text \<open>
  Claim C4 against the code. When \<^verbatim>\<open>binary_search\<close> raises
  \<^verbatim>\<open>BinarySearchLimitException\<close>, \<^verbatim>\<open>optimize_binsearch_core\<close> writes the listing of the
  source and the configuration to the log and then raises \<^verbatim>\<open>NameError\<close>, at the line that
  builds the name of the dump file from \<^verbatim>\<open>self\<close>: no file has been written.
\<close>

theorem search_exhausted_writes_no_dump:
  assumes "binary_search e (try_with_stalls e src conf kw)
             (stalls_minimum_attempt (constraints conf) - 1)
             (stalls_first_attempt (constraints conf))
             (stalls_maximum_attempt (constraints conf))
             (stalls_precision (constraints conf))
             (stalls_timeout_below_precision (constraints conf))
           = Inl BinarySearchLimitException"
  shows "optimize_binsearch_core e src conf kw =
           (Inl (NameError ''self''),
            [LogError ''Exceeded stall limit without finding a working solution'',
             LogError (''Here'' @ [CHR 0x27] @ ''s what you asked me to optimize:'')]
            @ dump_err ''Original source code'' src True
            @ [LogError ''Configuration'']
            @ map LogError (conf_log e conf),
            conf) \<and>
         FileWrite path text \<notin> set (fst (snd (optimize_binsearch_core e src conf kw)))"
  using assms
  by (auto simp add: optimize_binsearch_core_def search_exhausted_def dump_err_def)

text \<open>
  The theorem at a source of two lines for which the solver needs two stalls, with a stall
  limit of one.
\<close>

theorem search_exhausted_writes_no_dump_witness:
  "binary_search test_env
     (try_with_stalls test_env (Lines [''add x0, x0, x1 // sum'', ''ret''])
        (test_conf\<lparr>constraints := (constraints test_conf)\<lparr>stalls_maximum_attempt := 1\<rparr>\<rparr>) [])
     (- 1) 0 1 0 None = Inl BinarySearchLimitException \<and>
   optimize_binsearch_core test_env (Lines [''add x0, x0, x1 // sum'', ''ret''])
     (test_conf\<lparr>constraints := (constraints test_conf)\<lparr>stalls_maximum_attempt := 1\<rparr>\<rparr>) []
   = (Inl (NameError ''self''),
      [LogError ''Exceeded stall limit without finding a working solution'',
       LogError (''Here'' @ [CHR 0x27] @ ''s what you asked me to optimize:''),
       LogError ''Dump: Original source code'',
       LogError ''> add x0, x0, x1'',
       LogError ''> ret'',
       LogError ''Configuration'',
       LogError ''variable_size: False''],
      test_conf\<lparr>constraints := (constraints test_conf)\<lparr>stalls_maximum_attempt := 1\<rparr>\<rparr>)"
proof -
  define c where "c = test_conf\<lparr>constraints := (constraints test_conf)\<lparr>stalls_maximum_attempt := 1\<rparr>\<rparr>"
  define s where "s = Lines [''add x0, x0, x1 // sum'', ''ret'']"
  have v: "stalls_minimum_attempt (constraints c) - 1 = - 1"
    "stalls_first_attempt (constraints c) = 0" "stalls_maximum_attempt (constraints c) = 1"
    "stalls_precision (constraints c) = 0" "stalls_timeout_below_precision (constraints c) = None"
    unfolding c_def by code_simp+
  have h: "binary_search test_env (try_with_stalls test_env s c []) (- 1) 0 1 0 None
      = Inl BinarySearchLimitException"
    unfolding c_def s_def by code_simp
  have d: "dump_err ''Original source code'' s True
      = [LogError ''Dump: Original source code'', LogError ''> add x0, x0, x1'', LogError ''> ret'']"
    unfolding s_def by code_simp
  have l: "conf_log test_env c = [''variable_size: False'']"
    unfolding c_def by code_simp
  from search_exhausted_writes_no_dump[of test_env s c "[]"] h v
  have "optimize_binsearch_core test_env s c [] =
           (Inl (NameError ''self''),
            [LogError ''Exceeded stall limit without finding a working solution'',
             LogError (''Here'' @ [CHR 0x27] @ ''s what you asked me to optimize:'')]
            @ dump_err ''Original source code'' s True
            @ [LogError ''Configuration'']
            @ map LogError (conf_log test_env c),
            c)"
    by simp
  with h d l show ?thesis unfolding c_def s_def by simp
qed

section \<open>The second optimization, with the objective\<close>



section \<open>The halving heuristic\<close>

text \<open>
  Claim C1. Let \<^verbatim>\<open>_periodic_halving\<close> return. Then software pipelining and the halving
  heuristic are enabled, and the linear heuristic has optimized the body, with pipelining
  disabled, to a kernel \<open>k\<close> (after \<^verbatim>\<open>reduce_source\<close>). The preamble that is returned is the
  first half of \<open>k\<close>, the postamble is the second half, the number of exceptional iterations
  is 1, and the kernel that is returned is what the driver makes of the second half followed
  by the first half: the code of \<^verbatim>\<open>optimize_binsearch\<close> with pipelining enabled and no early
  or late instructions when \<^verbatim>\<open>halving_heuristic_periodic\<close> is set, the result of the linear
  heuristic otherwise.
\<close>

theorem periodic_halving_rotates_kernel:
  assumes "fst (periodic_halving e body conf) = Inr (pre, new_kernel, post, n)"
  shows "enabled (sw_pipelining conf) \<and> halving_heuristic (sw_pipelining conf) \<and>
    (\<exists>deps kernel0 k.
       dfg_inputs e conf body = Inr deps \<and>
       fst (linear_body e body
              (conf\<lparr>sw_pipelining := (sw_pipelining conf)\<lparr>enabled := False\<rparr>,
                    inputs_are_outputs := True, outputs := outputs conf \<union> deps\<rparr>) False)
         = Inr kernel0 \<and>
       k = reduce_source e (Lines kernel0) \<and>
       pre = take (length k div 2) k \<and>
       post = drop (length k div 2) k \<and>
       n = 1 \<and>
       (if halving_heuristic_periodic (sw_pipelining conf)
        then \<exists>r. fst (optimize_binsearch e (Lines (post @ pre))
                    (conf\<lparr>inputs_are_outputs := True,
                          sw_pipelining := (sw_pipelining conf)\<lparr>minimize_overlapping := False,
                            enabled := True, allow_pre := False, allow_post := False\<rparr>\<rparr>) [])
                  = Inr r \<and> new_kernel = code r
        else \<exists>deps'. dfg_inputs e (conf\<lparr>inputs_are_outputs := True\<rparr>) (Lines (post @ pre))
                  = Inr deps' \<and>
               fst (linear_body e (Lines (post @ pre))
                      (conf\<lparr>outputs := deps',
                            sw_pipelining := (sw_pipelining conf)\<lparr>enabled := False\<rparr>\<rparr>) True)
                  = Inr new_kernel))"
  using assms
  by (auto simp add: periodic_halving_def Let_def split: if_splits sum.splits)

text \<open>
  The theorem at a body of five instructions, with a solver that returns its source in
  reverse order: the linear step gives \<^verbatim>\<open>e d c b a\<close>, whose halves are \<^verbatim>\<open>e d\<close> and
  \<^verbatim>\<open>c b a\<close>, and the kernel is the solver's answer to \<^verbatim>\<open>c b a e d\<close>.
\<close>

theorem periodic_halving_rotates_kernel_witness:
  "fst (periodic_halving test_env (Lines [''a'', ''b'', ''c'', ''d'', ''e''])
     (test_conf\<lparr>sw_pipelining := (sw_pipelining test_conf)\<lparr>enabled := True,
        halving_heuristic := True\<rparr>\<rparr>))
     = Inr ([''e'', ''d''], [''d'', ''e'', ''a'', ''b'', ''c''], [''c'', ''b'', ''a''], 1) \<and>
   fst (linear_body test_env (Lines [''a'', ''b'', ''c'', ''d'', ''e''])
     (test_conf\<lparr>sw_pipelining := (sw_pipelining test_conf)\<lparr>enabled := False,
        halving_heuristic := True\<rparr>, inputs_are_outputs := True, outputs := {''x1''}\<rparr>) False)
     = Inr [''e'', ''d'', ''c'', ''b'', ''a''] \<and>
   fst (linear_body test_env (Lines ([''c'', ''b'', ''a''] @ [''e'', ''d'']))
     (test_conf\<lparr>outputs := {''x1''}, sw_pipelining := (sw_pipelining test_conf)\<lparr>
        halving_heuristic := True, enabled := False\<rparr>\<rparr>) True)
     = Inr [''d'', ''e'', ''a'', ''b'', ''c'']"
proof -
  define c where "c = test_conf\<lparr>sw_pipelining := (sw_pipelining test_conf)\<lparr>enabled := True,
        halving_heuristic := True\<rparr>\<rparr>"
  define b where "b = Lines [''a'', ''b'', ''c'', ''d'', ''e'']"
  have r: "fst (periodic_halving test_env b c)
     = Inr ([''e'', ''d''], [''d'', ''e'', ''a'', ''b'', ''c''], [''c'', ''b'', ''a''], 1)"
    unfolding b_def c_def by code_simp
  have l1: "fst (linear_body test_env b
     (test_conf\<lparr>sw_pipelining := (sw_pipelining test_conf)\<lparr>enabled := False,
        halving_heuristic := True\<rparr>, inputs_are_outputs := True, outputs := {''x1''}\<rparr>) False)
     = Inr [''e'', ''d'', ''c'', ''b'', ''a'']"
    unfolding b_def by code_simp
  have p: "\<not> halving_heuristic_periodic (sw_pipelining c)" unfolding c_def by code_simp
  have d: "dfg_inputs test_env = (\<lambda>c src. Inr {''x1''})" by (simp add: test_env_def)
  have cs: "c\<lparr>sw_pipelining := (sw_pipelining c)\<lparr>enabled := False\<rparr>\<rparr>
      = test_conf\<lparr>sw_pipelining := (sw_pipelining test_conf)\<lparr>enabled := False,
        halving_heuristic := True\<rparr>\<rparr>"
    unfolding c_def by simp
  from periodic_halving_rotates_kernel[OF r] p d
  have "fst (linear_body test_env (Lines ([''c'', ''b'', ''a''] @ [''e'', ''d'']))
          (c\<lparr>outputs := {''x1''}, sw_pipelining := (sw_pipelining c)\<lparr>enabled := False\<rparr>\<rparr>) True)
        = Inr [''d'', ''e'', ''a'', ''b'', ''c'']"
    by auto
  then have l2: "fst (linear_body test_env (Lines ([''c'', ''b'', ''a''] @ [''e'', ''d'']))
     (test_conf\<lparr>outputs := {''x1''}, sw_pipelining := (sw_pipelining test_conf)\<lparr>
        halving_heuristic := True, enabled := False\<rparr>\<rparr>) True)
     = Inr [''d'', ''e'', ''a'', ''b'', ''c'']"
    unfolding c_def by simp
  from r l1 l2 show ?thesis unfolding b_def c_def by simp
qed

section \<open>What \<^verbatim>\<open>Instruction.parser\<close> returns\<close>

lemma parsed_simps:
  "parsed [] = []"
  "parsed (Inr i # rs) = i # parsed rs"
  "parsed (Inl e # rs) = parsed rs"
  by (simp_all add: parsed_def map_filter_simps)

lemma uncaught_simps:
  "uncaught [] = []"
  "uncaught (Inr i # rs) = uncaught rs"
  "uncaught (Inl (ParsingException msg) # rs) = uncaught rs"
  "(\<And>msg. e \<noteq> ParsingException msg) \<Longrightarrow> uncaught (Inl e # rs) = e # uncaught rs"
  by (simp_all add: uncaught_def map_filter_simps split: error.splits)

lemma try_parsers_all:
  "try_parsers ps src insts =
     (case uncaught (map (\<lambda>p. p src) ps) of
        e # es \<Rightarrow> Inl e
      | [] \<Rightarrow> if insts @ parsed (map (\<lambda>p. p src) ps) = [] then Inl (could_not_parse src)
              else Inr (insts @ parsed (map (\<lambda>p. p src) ps)))"
proof (induction ps arbitrary: insts)
  case Nil
  show ?case by (simp add: parsed_simps uncaught_simps)
next
  case (Cons p ps)
  show ?case
  proof (cases "p src")
    case (Inr i)
    then show ?thesis
      by (simp add: Cons.IH parsed_simps uncaught_simps cong: list.case_cong)
  next
    case (Inl e)
    show ?thesis
    proof (cases "\<exists>msg. e = ParsingException msg")
      case True
      then obtain msg where "e = ParsingException msg" by blast
      with Inl show ?thesis
        by (simp add: Cons.IH parsed_simps uncaught_simps cong: list.case_cong)
    next
      case False
      then have u: "uncaught (Inl e # map (\<lambda>p. p src) ps) = e # uncaught (map (\<lambda>p. p src) ps)"
        by (simp add: uncaught_simps)
      from False have "try_parsers (p # ps) src insts = Inl e"
        using Inl by (cases e) simp_all
      with u Inl show ?thesis by simp
    qed
  qed
qed

text \<open>
  Claim C3, as the code has it. \<^verbatim>\<open>Instruction.parser\<close> asks every class, in the order of
  the classes, to parse the line. An exception of a class that is no
  \<^verbatim>\<open>ParsingException\<close> ends the call. Otherwise the result is the list of the instructions
  of all the classes that parse the line, in that order, and \<^verbatim>\<open>ParsingException\<close> is
  raised when the list is empty.
\<close>

theorem Instruction_parser_returns_every_parse:
  "Instruction_parser simplify src =
     (case uncaught (map (\<lambda>c. snd c src)
              (Instruction_subclasses simplify @ AArch64Instruction_subclasses)) of
        e # es \<Rightarrow> Inl e
      | [] \<Rightarrow>
          if parsed (map (\<lambda>c. snd c src)
                (Instruction_subclasses simplify @ AArch64Instruction_subclasses)) = []
          then Inl (could_not_parse src)
          else Inr (parsed (map (\<lambda>c. snd c src)
                (Instruction_subclasses simplify @ AArch64Instruction_subclasses))))"
proof -
  have m: "map (\<lambda>p. p src) (map snd (Instruction_subclasses simplify @ AArch64Instruction_subclasses))
      = map (\<lambda>c. snd c src) (Instruction_subclasses simplify @ AArch64Instruction_subclasses)"
    by (simp add: comp_def del: map_append)
  show ?thesis
    unfolding Instruction_parser_def try_parsers_all m by (simp cong: list.case_cong del: map_append)
qed

text \<open>
  Claim C3 as stated fails: \<^verbatim>\<open>ldr x1, [x2]\<close> is parsed by \<^verbatim>\<open>x_ldr\<close> and by \<^verbatim>\<open>vldr\<close>,
  and the result holds both instructions, not the first one alone.
\<close>

theorem Instruction_parser_two_parses_counterexample:
  "map_sum id (map (\<lambda>i. (cls i, arg_types_in i, args_in i, args_out i)))
     (Instruction_parser Inr ''ldr x1, [x2]'')
   = Inr [(''x_ldr'', [GPR], [''x2''], [''x1'']), (''vldr'', [Neon], [''x2''], [''x1''])]"
  by code_simp

end
